theory Spec2Isabelle
  imports Complex_Main
begin

section \<open>Values of the two socket protocols\<close>

text \<open>
  Both sockets carry JSON text. A decoded frame is a Python value built from
  \<open>None\<close>, booleans, numbers, strings, lists and dicts. Numbers are rationals
  (the literal \<open>0.8\<close> and the clock readings are the only non-integers the relay
  produces); strings are byte strings. A dict is an association list in insertion
  order, read by its first entry for a key.
\<close>

datatype json =
    JNull
  | JBool bool
  | JNum rat
  | JStr string
  | JArr "json list"
  | JObj "(string \<times> json) list"

text \<open>The exceptions the relay can meet; all of them are subclasses of
  \<open>Exception\<close>.\<close>

datatype error =
    JSONDecodeError
  | KeyError string
  | TypeError
  | AttributeError
  | BinasciiError
  | ConnectionClosed
  | ExternalError string

subsection \<open>Python's operations on such values\<close>

text \<open>Truthiness, as \<open>if x:\<close> and \<open>not x\<close> test it.\<close>

fun truthy :: "json \<Rightarrow> bool" where
  "truthy JNull = False"
| "truthy (JBool b) = b"
| "truthy (JNum n) = (n \<noteq> 0)"
| "truthy (JStr s) = (s \<noteq> [])"
| "truthy (JArr xs) = (xs \<noteq> [])"
| "truthy (JObj kvs) = (kvs \<noteq> [])"

text \<open>\<open>==\<close>: booleans compare as the numbers 0 and 1, dicts regardless of order.\<close>

fun py_eq :: "json \<Rightarrow> json \<Rightarrow> bool" where
  "py_eq JNull JNull = True"
| "py_eq (JBool a) (JBool b) = (a = b)"
| "py_eq (JBool a) (JNum n) = (n = (if a then 1 else 0))"
| "py_eq (JNum n) (JBool b) = (n = (if b then 1 else 0))"
| "py_eq (JNum m) (JNum n) = (m = n)"
| "py_eq (JStr s) (JStr t) = (s = t)"
| "py_eq (JArr xs) (JArr ys) = list_all2 py_eq xs ys"
| "py_eq (JObj a) (JObj b) =
     (length a = length b \<and>
      (\<forall>kv \<in> set a. case map_of b (fst kv) of None \<Rightarrow> False | Some v \<Rightarrow> py_eq (snd kv) v))"
| "py_eq _ _ = False"

text \<open>\<open>d[k]\<close> with a string key.\<close>

definition py_item :: "json \<Rightarrow> string \<Rightarrow> error + json" where
  "py_item d k =
     (case d of
        JObj kvs \<Rightarrow> (case map_of kvs k of None \<Rightarrow> Inl (KeyError k) | Some v \<Rightarrow> Inr v)
      | _ \<Rightarrow> Inl TypeError)"

text \<open>\<open>d.get(k, default)\<close>: only a dict has the method.\<close>

definition py_get :: "json \<Rightarrow> string \<Rightarrow> json \<Rightarrow> error + json" where
  "py_get d k dflt =
     (case d of
        JObj kvs \<Rightarrow> (case map_of kvs k of None \<Rightarrow> Inr dflt | Some v \<Rightarrow> Inr v)
      | _ \<Rightarrow> Inl AttributeError)"

fun startswith :: "string \<Rightarrow> string \<Rightarrow> bool" where
  "startswith s [] = True"
| "startswith [] (p # ps) = False"
| "startswith (c # cs) (p # ps) = (c = p \<and> startswith cs ps)"

text \<open>\<open>sub in s\<close> on strings.\<close>

fun contains :: "string \<Rightarrow> string \<Rightarrow> bool" where
  "contains sub [] = (sub = [])"
| "contains sub (c # cs) = (startswith (c # cs) sub \<or> contains sub cs)"

text \<open>\<open>k in x\<close> for a string \<open>k\<close>: a key of a dict, a substring of a string, an
  element of a list; anything else is not iterable.\<close>

definition py_in :: "string \<Rightarrow> json \<Rightarrow> error + bool" where
  "py_in k x =
     (case x of
        JObj kvs \<Rightarrow> Inr (map_of kvs k \<noteq> None)
      | JStr s \<Rightarrow> Inr (contains k s)
      | JArr xs \<Rightarrow> Inr (list_ex (py_eq (JStr k)) xs)
      | _ \<Rightarrow> Inl TypeError)"

text \<open>\<open>a += b\<close> on a stored value: strings concatenate, numbers add, a list is
  extended by the elements of a list, the characters of a string or the keys of a dict.\<close>

fun as_number :: "json \<Rightarrow> rat option" where
  "as_number (JNum n) = Some n"
| "as_number (JBool b) = Some (if b then 1 else 0)"
| "as_number _ = None"

definition py_iadd :: "json \<Rightarrow> json \<Rightarrow> error + json" where
  "py_iadd a b =
     (case (a, b) of
        (JStr s, JStr t) \<Rightarrow> Inr (JStr (s @ t))
      | (JArr xs, JArr ys) \<Rightarrow> Inr (JArr (xs @ ys))
      | (JArr xs, JStr t) \<Rightarrow> Inr (JArr (xs @ map (\<lambda>c. JStr [c]) t))
      | (JArr xs, JObj kvs) \<Rightarrow> Inr (JArr (xs @ map (\<lambda>kv. JStr (fst kv)) kvs))
      | _ \<Rightarrow> (case (as_number a, as_number b) of
                (Some m, Some n) \<Rightarrow> Inr (JNum (m + n))
              | _ \<Rightarrow> Inl TypeError))"

text \<open>\<open>str.lower()\<close> on the ASCII letters; other bytes are kept.\<close>

definition lower_char :: "char \<Rightarrow> char" where
  "lower_char c =
     (case map_of (zip ''ABCDEFGHIJKLMNOPQRSTUVWXYZ'' ''abcdefghijklmnopqrstuvwxyz'') c of
        None \<Rightarrow> c
      | Some l \<Rightarrow> l)"

definition py_lower :: "json \<Rightarrow> error + string" where
  "py_lower x = (case x of JStr s \<Rightarrow> Inr (map lower_char s) | _ \<Rightarrow> Inl AttributeError)"

text \<open>Only \<open>None\<close>, booleans, numbers and strings can be dict keys.\<close>

fun hashable :: "json \<Rightarrow> bool" where
  "hashable (JArr _) = False"
| "hashable (JObj _) = False"
| "hashable _ = True"

text \<open>A dict with arbitrary hashable keys, in insertion order: lookup, and
  \<open>d[k] = v\<close>, which overwrites in place or appends.\<close>

fun dict_get :: "(json \<times> 'v) list \<Rightarrow> json \<Rightarrow> 'v option" where
  "dict_get [] k = None"
| "dict_get ((k', v) # d) k = (if py_eq k' k then Some v else dict_get d k)"

fun dict_set :: "(json \<times> 'v) list \<Rightarrow> json \<Rightarrow> 'v \<Rightarrow> (json \<times> 'v) list" where
  "dict_set [] k v = [(k, v)]"
| "dict_set ((k', v') # d) k v =
     (if py_eq k' k then (k', v) # d else (k', v') # dict_set d k v)"


section \<open>The call session store and the world around one call\<close>

type_synonym timestamp = rat

text \<open>The entries of the four logs of a call record (\<open>mainn.py\<close>, 98-110).\<close>

record transcription =
  tr_text :: json
  tr_complete :: bool

record assistant_response =
  ar_item_id :: json
  ar_text :: json
  ar_timestamp :: timestamp

record function_call =
  fc_type :: string
  fc_timestamp :: timestamp
  fc_args :: json
  fc_result :: json
  fc_item_id :: json

record appointment =
  ap_timestamp :: timestamp
  ap_proposed_time :: json
  ap_email :: json
  ap_result :: json
  ap_item_id :: json

record session =
  caller_number :: string
  called_number :: string
  timestamp :: timestamp
  transcriptions :: "(json \<times> transcription) list"
  function_calls :: "function_call list"
  assistant_responses :: "assistant_response list"
  appointments :: "appointment list"
  user_exists :: bool
  user_details :: json
  user_role_set :: bool
  system_message :: string

text \<open>A line of the error log: an exception caught by a handler, or an error event
  reported by the AI session.\<close>

datatype log_entry = Caught error | Reported json

text \<open>
  What the relay does to the outside, in the order it does it: a call of the
  directory-write collaborator (phone number, role), the summarisation of a call
  (call identifier, transcript), an attempt of each of the two deliveries (recipient,
  link or text), and the deletion of a call record (call identifier).
\<close>

datatype effect =
    Registered string string
  | Summarized string string
  | SentTemplate string json
  | SentText string string
  | Deleted string

text \<open>
  The state one call runs in: the process-wide \<open>call_data\<close> dict, the text frames
  sent so far on each socket, whether each socket is open, the \<open>stream_id\<close>
  attribute of the telephony socket (absent until a start event sets it), the error
  log, the number of clock readings taken, the \<open>registration_form\<close> table with
  a script of the faults its next requests meet, and the trace of effects.
  The error log has one entry for each exception an \<open>except\<close> clause logs
  with \<open>logger.error\<close>.
\<close>

record world =
  call_data :: "string \<Rightarrow> session option"
  plivo_sent :: "string list"
  openai_sent :: "string list"
  plivo_open :: bool
  openai_open :: bool
  stream_id :: "json option"
  logged :: "log_entry list"
  ticks :: nat
  registration_form :: "json list"
  faults :: "bool list"
  trace :: "effect list"

text \<open>
  The libraries and external services, each a function of its arguments:
  \<open>json.loads\<close> (\<open>None\<close> when it raises), \<open>json.dumps\<close>, \<open>str()\<close> of a
  value that is not a string and of an exception, the base64 codec (\<open>None\<close> when
  decoding raises), the clock, the scheduling service of \<open>google_calender\<close>, the
  embedding, vector index and language model behind the product search, and behind the
  summary the language model, the PDF rendering and upload (the \<open>try\<close> body of
  \<open>upload_text_to_pdf_and_get_short_url\<close>) and the two requests of the messaging
  client (the \<open>try\<close> bodies of \<open>send_templated_message\<close> and
  \<open>send_simple_whatsapp\<close>; \<open>None\<close> when they return). The linearisation of
  the four logs into the transcript text (\<open>mainn.py\<close>, 611-686) is a parameter as
  well: it reads the call record and the clock readings taken for the transcription
  fragments, and yields the text or raises.
\<close>

record env =
  loads :: "string \<Rightarrow> json option"
  dumps :: "json \<Rightarrow> string"
  repr :: "json \<Rightarrow> string"
  err_str :: "error \<Rightarrow> string"
  b64decode :: "string \<Rightarrow> string option"
  b64encode :: "string \<Rightarrow> string"
  clock :: "nat \<Rightarrow> timestamp"
  is_slot_available :: "json \<Rightarrow> error + json"
  book_slot_handler :: "json \<Rightarrow> json \<Rightarrow> error + json"
  get_available_slots_handler :: "error + json"
  embed_content :: "json \<Rightarrow> error + json"
  index_query :: "json \<Rightarrow> error + json"
  summarize_matches :: "string list \<Rightarrow> json \<Rightarrow> error + string"
  render_transcript :: "session \<Rightarrow> nat \<Rightarrow> error + string"
  invoice_model :: "string \<Rightarrow> error + string"
  pdf_upload :: "string \<Rightarrow> error + json"
  template_request :: "string \<Rightarrow> json \<Rightarrow> string \<Rightarrow> error option"
  text_request :: "string \<Rightarrow> string \<Rightarrow> error option"

subsection \<open>Statements that may raise\<close>

text \<open>A statement runs in a world and either returns a value or raises; the changes
  made before a raise stay.\<close>

type_synonym 'a m = "world \<Rightarrow> (error + 'a) \<times> world"

definition ret :: "'a \<Rightarrow> 'a m" where
  "ret x = (\<lambda>w. (Inr x, w))"

definition raise :: "error \<Rightarrow> 'a m" where
  "raise e = (\<lambda>w. (Inl e, w))"

definition lift :: "error + 'a \<Rightarrow> 'a m" where
  "lift r = (\<lambda>w. (r, w))"

definition thn :: "'a m \<Rightarrow> ('a \<Rightarrow> 'b m) \<Rightarrow> 'b m" where
  "thn s f = (\<lambda>w. case s w of (Inl e, w') \<Rightarrow> (Inl e, w') | (Inr a, w') \<Rightarrow> f a w')"

definition modify :: "(world \<Rightarrow> world) \<Rightarrow> unit m" where
  "modify f = (\<lambda>w. (Inr (), f w))"

definition gets :: "(world \<Rightarrow> 'a) \<Rightarrow> 'a m" where
  "gets f = (\<lambda>w. (Inr (f w), w))"

text \<open>A function that catches its own exceptions and always returns.\<close>

definition total :: "(world \<Rightarrow> 'a \<times> world) \<Rightarrow> 'a m" where
  "total f = (\<lambda>w. case f w of (a, w') \<Rightarrow> (Inr a, w'))"

text \<open>\<open>str()\<close> of a value inside an f-string.\<close>

definition fstr :: "env \<Rightarrow> json \<Rightarrow> string" where
  "fstr E x = (case x of JStr s \<Rightarrow> s | _ \<Rightarrow> repr E x)"

text \<open>\<open>time.time()\<close>.\<close>

definition time_time :: "env \<Rightarrow> timestamp m" where
  "time_time E = (\<lambda>w. (Inr (clock E (ticks w)), w\<lparr>ticks := Suc (ticks w)\<rparr>))"

text \<open>\<open>logger.error\<close>.\<close>

definition log_error :: "log_entry \<Rightarrow> world \<Rightarrow> world" where
  "log_error l w = w\<lparr>logged := logged w @ [l]\<rparr>"

definition emit :: "effect \<Rightarrow> world \<Rightarrow> world" where
  "emit x w = w\<lparr>trace := trace w @ [x]\<rparr>"

text \<open>
  \<open>send\<close> of the \<open>websockets\<close> library on the AI-session socket: it first checks
  that the connection is open, sends a \<open>str\<close> as one text frame, and rejects a
  dict with \<open>TypeError\<close>. The telephony socket is sent strings only.
\<close>

datatype payload = Text string | Mapping json

definition openai_send :: "payload \<Rightarrow> unit m" where
  "openai_send p =
     (\<lambda>w. if \<not> openai_open w then (Inl ConnectionClosed, w)
          else (case p of
                  Text s \<Rightarrow> (Inr (), w\<lparr>openai_sent := openai_sent w @ [s]\<rparr>)
                | Mapping j \<Rightarrow> (Inl TypeError, w)))"

definition plivo_send :: "string \<Rightarrow> unit m" where
  "plivo_send s =
     (\<lambda>w. if \<not> plivo_open w then (Inl ConnectionClosed, w)
          else (Inr (), w\<lparr>plivo_sent := plivo_sent w @ [s]\<rparr>))"

text \<open>Reading and updating the record of one call.\<close>

definition update_session :: "string \<Rightarrow> (session \<Rightarrow> session) \<Rightarrow> world \<Rightarrow> world" where
  "update_session call_uuid f w =
     (case call_data w call_uuid of
        None \<Rightarrow> w
      | Some s \<Rightarrow> w\<lparr>call_data := (call_data w)(call_uuid \<mapsto> f s)\<rparr>)"

definition delete_session :: "string \<Rightarrow> world \<Rightarrow> world" where
  "delete_session call_uuid w =
     emit (Deleted call_uuid) (w\<lparr>call_data := (call_data w)(call_uuid := None)\<rparr>)"


section \<open>The user directory (\<open>db.py\<close>)\<close>

text \<open>
  One request to the \<open>registration_form\<close> table: it takes the next entry of the
  fault script and raises if that entry is set; with the script used up, requests
  succeed.
\<close>

definition execute :: "(world \<Rightarrow> 'a) \<Rightarrow> (world \<Rightarrow> world) \<Rightarrow> 'a m" where
  "execute q upd =
     (\<lambda>w. case faults w of
             [] \<Rightarrow> (Inr (q w), upd w)
           | f # fs \<Rightarrow>
               if f then (Inl (ExternalError ''supabase''), w\<lparr>faults := fs\<rparr>)
               else (Inr (q w), upd (w\<lparr>faults := fs\<rparr>)))"

definition rows_of :: "string \<Rightarrow> world \<Rightarrow> json list" where
  "rows_of phone_number w =
     filter (\<lambda>r. py_item r ''phone_number'' = Inr (JStr phone_number)) (registration_form w)"

text \<open>\<open>select("*").eq("phone_number", n)\<close> and \<open>select("phone_number").eq(...)\<close>.\<close>

definition select_all :: "string \<Rightarrow> json list m" where
  "select_all phone_number = execute (rows_of phone_number) (\<lambda>w. w)"

definition select_phone_number :: "string \<Rightarrow> json list m" where
  "select_phone_number phone_number =
     execute (\<lambda>w. map (\<lambda>r. JObj [(''phone_number'', JStr phone_number)]) (rows_of phone_number w))
       (\<lambda>w. w)"

definition insert_row :: "json \<Rightarrow> unit m" where
  "insert_row r = execute (\<lambda>w. ()) (\<lambda>w. w\<lparr>registration_form := registration_form w @ [r]\<rparr>)"

definition does_number_exist :: "string \<Rightarrow> world \<Rightarrow> bool \<times> world" where
  "does_number_exist phone_number w =
     (case select_phone_number phone_number w of
        (Inr data, w') \<Rightarrow> (data \<noteq> [], w')
      | (Inl e, w') \<Rightarrow> (False, log_error (Caught e) w'))"

definition status_object :: "string \<Rightarrow> string \<Rightarrow> json \<Rightarrow> json" where
  "status_object st msg d = JObj [(''status'', JStr st), (''message'', JStr msg), (''data'', d)]"

definition email_incomplete :: "json \<Rightarrow> bool" where
  "email_incomplete e =
     (\<not> truthy e \<or> (case e of JStr s \<Rightarrow> startswith s ''pending_'' | _ \<Rightarrow> False))"

definition get_user_details_body :: "string \<Rightarrow> json m" where
  "get_user_details_body phone_number =
     thn (select_all phone_number) (\<lambda>data.
       case data of
         [] \<Rightarrow> ret (status_object ''not_found'' ''Number is not registered'' JNull)
       | user_data # _ \<Rightarrow>
           thn (lift (py_get user_data ''email'' JNull)) (\<lambda>e.
             if email_incomplete e
             then ret (status_object ''incomplete''
                    ''Registration incomplete. Please fill up the registration form.'' user_data)
             else ret (status_object ''success'' ''User found'' user_data)))"

definition get_user_details :: "env \<Rightarrow> string \<Rightarrow> world \<Rightarrow> json \<times> world" where
  "get_user_details E phone_number w =
     (case get_user_details_body phone_number w of
        (Inr r, w') \<Rightarrow> (r, w')
      | (Inl e, w') \<Rightarrow>
          (status_object ''error'' (''Error retrieving user details: '' @ err_str E e) JNull,
           log_error (Caught e) w'))"

definition new_record :: "string \<Rightarrow> string \<Rightarrow> json" where
  "new_record phone_number role =
     JObj [(''phone_number'', JStr phone_number), (''email'', JNull), (''name'', JNull),
           (''location'', JNull), (''role'', JStr role)]"

definition add_phone_with_role_body :: "string \<Rightarrow> string \<Rightarrow> json m" where
  "add_phone_with_role_body phone_number role =
     thn (select_phone_number phone_number) (\<lambda>data.
       if data \<noteq> []
       then ret (JObj [(''status'', JStr ''exists''),
                       (''message'', JStr ''Phone number already exists'')])
       else thn (insert_row (new_record phone_number role)) (\<lambda>_.
              ret (JObj [(''status'', JStr ''created''),
                         (''message'', JStr ''New phone number entry created'')])))"

definition add_phone_with_role :: "env \<Rightarrow> string \<Rightarrow> string \<Rightarrow> world \<Rightarrow> json \<times> world" where
  "add_phone_with_role E phone_number role w =
     (case add_phone_with_role_body phone_number role (emit (Registered phone_number role) w) of
        (Inr r, w') \<Rightarrow> (r, w')
      | (Inl e, w') \<Rightarrow>
          (JObj [(''status'', JStr ''error''),
                 (''message'', JStr (''Failed to process registration: '' @ err_str E e))],
           log_error (Caught e) w'))"

section \<open>The session relay (\<open>mainn.py\<close>)\<close>

definition SYSTEM_MESSAGE :: string where
  "SYSTEM_MESSAGE =
     ''\<newline>You are a helpful assistant for Tec Nvirons who can handle three types of requests:\<newline>'' @
     ''1. General chat - respond conversationally to general inquiries.\<newline>'' @
     ''2. Product database queries - search the product database when users ask about specific products.\<newline>'' @
     ''3. Appointment booking - help users schedule appointments using the calendar functions.\<newline>'' @
     ''When users want to book an appointment, either directly verify if their requested time is available,\<newline>'' @
     ''or check available slots if they haven't specified a time.\<newline>'' @
     ''Book the appointment once a time is confirmed. Always be helpful, friendly, and conversational.\<newline>''"

definition NEW_USER_SYSTEM_MESSAGE :: string where
  "NEW_USER_SYSTEM_MESSAGE =
     ''\<newline>You are a helpful assistant for Tec Nvirons. I see you're a new caller.\<newline>'' @
     ''Before we proceed, I need to know if you're a contractor or a customer.\<newline>'' @
     ''Please let me know which one you are, and then I can assist you with\<newline>'' @
     ''product information, appointment scheduling, or any other questions you have.\<newline>''"

definition new_session ::
  "string \<Rightarrow> string \<Rightarrow> timestamp \<Rightarrow> bool \<Rightarrow> json \<Rightarrow> string \<Rightarrow> session" where
  "new_session caller called ts ex details sysmsg =
     \<lparr>caller_number = caller, called_number = called, timestamp = ts,
      transcriptions = [], function_calls = [], assistant_responses = [], appointments = [],
      user_exists = ex, user_details = details, user_role_set = False,
      system_message = sysmsg\<rparr>"

text \<open>
  The webhook \<open>home\<close>: look the caller up, choose greeting and instructions, create
  the call record. The result is the greeting put into the XML answer, or \<open>None\<close>
  for the answer of the error branch.
\<close>

definition home_body :: "env \<Rightarrow> string \<Rightarrow> string \<Rightarrow> string \<Rightarrow> string m" where
  "home_body E caller called call_uuid =
     thn (total (does_number_exist caller)) (\<lambda>ex.
     thn (if ex
          then thn (total (get_user_details E caller)) (\<lambda>details.
               thn (lift (py_item details ''status'')) (\<lambda>st.
                 if py_eq st (JStr ''success'')
                 then thn (lift (py_item details ''data'')) (\<lambda>d.
                      thn (lift (py_item d ''name'')) (\<lambda>user_name.
                        ret (''Hey '' @ fstr E user_name @
                               ''! Welcome back to Technvi AI. How can I help you today?'',
                             details, SYSTEM_MESSAGE)))
                 else ret (''Welcome to Technvi AI! How can I help you today?'',
                           details, SYSTEM_MESSAGE)))
          else ret (''Welcome to Technvi AI! I see you're a new caller. Are you a contractor or a customer?'',
                    JNull, NEW_USER_SYSTEM_MESSAGE))
       (\<lambda>(greeting, details, sysmsg).
     thn (time_time E) (\<lambda>ts.
     thn (modify (\<lambda>w. w\<lparr>call_data := (call_data w)(call_uuid \<mapsto>
            new_session caller called ts ex details sysmsg)\<rparr>)) (\<lambda>_.
       ret greeting))))"

definition home :: "env \<Rightarrow> string \<Rightarrow> string \<Rightarrow> string \<Rightarrow> world \<Rightarrow> string option \<times> world" where
  "home E caller called call_uuid w =
     (case home_body E caller called call_uuid w of
        (Inr greeting, w') \<Rightarrow> (Some greeting, w')
      | (Inl e, w') \<Rightarrow> (None, log_error (Caught e) w'))"

text \<open>The start of \<open>handle_message\<close>: a missing call record is replaced by an
  anonymous one.\<close>

definition handle_message_enter :: "env \<Rightarrow> string \<Rightarrow> world \<Rightarrow> world" where
  "handle_message_enter E call_uuid w =
     (case call_data w call_uuid of
        Some _ \<Rightarrow> w
      | None \<Rightarrow>
          (let ts = clock E (ticks w) in
           w\<lparr>ticks := Suc (ticks w),
             call_data := (call_data w)(call_uuid \<mapsto>
               new_session ''unknown'' ''unknown'' ts False JNull NEW_USER_SYSTEM_MESSAGE)\<rparr>))"


subsection \<open>The product search (\<open>realtime_tools.py\<close>)\<close>

text \<open>\<open>for x in v\<close>: the elements of a list, the characters of a string, the keys
  of a dict.\<close>

definition py_iter :: "json \<Rightarrow> error + json list" where
  "py_iter v =
     (case v of
        JArr xs \<Rightarrow> Inr xs
      | JStr s \<Rightarrow> Inr (map (\<lambda>c. JStr [c]) s)
      | JObj kvs \<Rightarrow> Inr (map (\<lambda>kv. JStr (fst kv)) kvs)
      | _ \<Rightarrow> Inl TypeError)"

fun collect_contexts :: "json list \<Rightarrow> json list \<Rightarrow> error + json list" where
  "collect_contexts contexts [] = Inr contexts"
| "collect_contexts contexts (match # rest) =
     (case py_get match ''metadata'' (JObj []) of
        Inl e \<Rightarrow> Inl e
      | Inr md \<Rightarrow>
          (case py_in ''text'' md of
             Inl e \<Rightarrow> Inl e
           | Inr False \<Rightarrow> collect_contexts contexts rest
           | Inr True \<Rightarrow>
               (case py_item match ''metadata'' of
                  Inl e \<Rightarrow> Inl e
                | Inr md' \<Rightarrow>
                    (case py_item md' ''text'' of
                       Inl e \<Rightarrow> Inl e
                     | Inr t \<Rightarrow> collect_contexts (contexts @ [t]) rest))))"

text \<open>\<open>"\n---\n".join(contexts)\<close> needs strings; the joined text and the query
  make the prompt, so the language model is given the parts.\<close>

fun all_strings :: "json list \<Rightarrow> error + string list" where
  "all_strings [] = Inr []"
| "all_strings (JStr s # xs) =
     (case all_strings xs of Inl e \<Rightarrow> Inl e | Inr ss \<Rightarrow> Inr (s # ss))"
| "all_strings (_ # xs) = Inl TypeError"

definition search_product_database_body :: "env \<Rightarrow> json \<Rightarrow> string m" where
  "search_product_database_body E query =
     thn (lift (embed_content E query)) (\<lambda>embed_response.
     thn (lift (py_item embed_response ''embedding'')) (\<lambda>embedding.
     thn (lift (index_query E embedding)) (\<lambda>results.
     thn (lift (py_item results ''matches'')) (\<lambda>matches.
       if \<not> truthy matches
       then ret ''I couldn't find information about that product in our database.''
       else
         thn (lift (py_iter matches)) (\<lambda>ms.
         thn (lift (collect_contexts [] ms)) (\<lambda>contexts.
           if contexts = []
           then ret ''I found some matches but they don't contain usable information.''
           else
             thn (lift (all_strings contexts)) (\<lambda>texts.
               lift (summarize_matches E texts query))))))))"

definition search_product_database :: "env \<Rightarrow> json \<Rightarrow> world \<Rightarrow> string \<times> world" where
  "search_product_database E query w =
     (case search_product_database_body E query w of
        (Inr answer, w') \<Rightarrow> (answer, w')
      | (Inl e, w') \<Rightarrow>
          (''Sorry, I encountered an error searching our product database.'',
           log_error (Caught e) w'))"

subsection \<open>The handlers of \<open>receive_from_openai\<close>, one per event type\<close>

text \<open>\<open>response.text.delta\<close> (lines 244-262): the first entry with the item id is
  extended, a new entry is appended otherwise.\<close>

fun extend_response ::
  "json \<Rightarrow> json \<Rightarrow> assistant_response list \<Rightarrow> error + assistant_response list" where
  "extend_response item_id text_delta [] = Inr []"
| "extend_response item_id text_delta (r # rs) =
     (if py_eq (ar_item_id r) item_id
      then (case py_iadd (ar_text r) text_delta of
              Inl e \<Rightarrow> Inl e
            | Inr t \<Rightarrow> Inr (r\<lparr>ar_text := t\<rparr> # rs))
      else (case extend_response item_id text_delta rs of
              Inl e \<Rightarrow> Inl e
            | Inr rs' \<Rightarrow> Inr (r # rs')))"

definition on_text_delta :: "env \<Rightarrow> string \<Rightarrow> json \<Rightarrow> unit m" where
  "on_text_delta E call_uuid response =
     thn (gets (\<lambda>w. call_data w call_uuid)) (\<lambda>found.
       case found of
         None \<Rightarrow> ret ()
       | Some s \<Rightarrow>
           thn (lift (py_get response ''delta'' (JStr []))) (\<lambda>text_delta.
           thn (lift (py_get response ''item_id'' (JStr ''unknown''))) (\<lambda>item_id.
             if \<not> list_ex (\<lambda>r. py_eq (ar_item_id r) item_id) (assistant_responses s)
             then thn (time_time E) (\<lambda>ts.
                    modify (update_session call_uuid (\<lambda>s. s\<lparr>assistant_responses :=
                      assistant_responses s @
                        [\<lparr>ar_item_id = item_id, ar_text = text_delta, ar_timestamp = ts\<rparr>]\<rparr>)))
             else thn (lift (extend_response item_id text_delta (assistant_responses s))) (\<lambda>rs.
                    modify (update_session call_uuid (\<lambda>s. s\<lparr>assistant_responses := rs\<rparr>))))))"

text \<open>\<open>response.audio.delta\<close> (lines 264-274).\<close>

definition play_audio :: "string \<Rightarrow> json" where
  "play_audio p =
     JObj [(''event'', JStr ''playAudio''),
           (''media'', JObj [(''contentType'', JStr ''audio/x-mulaw''),
                             (''sampleRate'', JNum 8000),
                             (''payload'', JStr p)])]"

definition decode_audio :: "env \<Rightarrow> json \<Rightarrow> error + string" where
  "decode_audio E d =
     (case d of
        JStr s \<Rightarrow> (case b64decode E s of None \<Rightarrow> Inl BinasciiError | Some audio \<Rightarrow> Inr audio)
      | _ \<Rightarrow> Inl TypeError)"

definition on_audio_delta :: "env \<Rightarrow> json \<Rightarrow> unit m" where
  "on_audio_delta E response =
     thn (lift (py_item response ''delta'')) (\<lambda>d.
     thn (lift (decode_audio E d)) (\<lambda>audio.
       plivo_send (dumps E (play_audio (b64encode E audio)))))"

text \<open>\<open>conversation.item.input_audio_transcription.delta\<close> (lines 396-404).\<close>

definition on_transcription_delta :: "string \<Rightarrow> json \<Rightarrow> unit m" where
  "on_transcription_delta call_uuid response =
     thn (lift (py_get response ''item_id'' JNull)) (\<lambda>item_id.
     thn (lift (py_get response ''delta'' (JStr []))) (\<lambda>delta.
     thn (gets (\<lambda>w. call_data w call_uuid)) (\<lambda>found.
       case found of
         None \<Rightarrow> ret ()
       | Some s \<Rightarrow>
           if \<not> hashable item_id then raise TypeError
           else (case dict_get (transcriptions s) item_id of
                   None \<Rightarrow>
                     modify (update_session call_uuid (\<lambda>s. s\<lparr>transcriptions :=
                       dict_set (transcriptions s) item_id
                         \<lparr>tr_text = delta, tr_complete = False\<rparr>\<rparr>))
                 | Some t \<Rightarrow>
                     thn (lift (py_iadd (tr_text t) delta)) (\<lambda>new_text.
                       modify (update_session call_uuid (\<lambda>s. s\<lparr>transcriptions :=
                         dict_set (transcriptions s) item_id (t\<lparr>tr_text := new_text\<rparr>)\<rparr>)))))))"

text \<open>\<open>conversation.item.input_audio_transcription.completed\<close> (lines 406-449),
  with the role capture of a first-time caller.\<close>

definition session_update_instructions :: json where
  "session_update_instructions =
     JObj [(''type'', JStr ''session.update''),
           (''session'', JObj [(''instructions'', JStr SYSTEM_MESSAGE)])]"

definition response_create :: "string \<Rightarrow> json" where
  "response_create instructions =
     JObj [(''type'', JStr ''response.create''),
           (''response'', JObj [(''modalities'', JArr [JStr ''text'', JStr ''audio'']),
                                (''temperature'', JNum (8 / 10)),
                                (''instructions'', JStr instructions)])]"

definition role_thanks :: "string \<Rightarrow> string" where
  "role_thanks role =
     ''Thank the user for specifying they are a '' @ role @
     ''. Now continue with normal conversation, offering to help with product information or appointment scheduling.''"

definition capture_role :: "env \<Rightarrow> string \<Rightarrow> string \<Rightarrow> json \<Rightarrow> unit m" where
  "capture_role E call_uuid caller full_transcript =
     thn (lift (py_lower full_transcript)) (\<lambda>lower_transcript.
       if contains ''contractor'' lower_transcript \<or> contains ''customer'' lower_transcript
       then
         (let role = (if contains ''contractor'' lower_transcript
                      then ''contractor'' else ''customer'') in
          thn (total (add_phone_with_role E caller role)) (\<lambda>result.
          thn (lift (py_item result ''status'')) (\<lambda>st.
            if py_eq st (JStr ''created'') \<or> py_eq st (JStr ''exists'')
            then
              thn (modify (update_session call_uuid
                     (\<lambda>s. s\<lparr>user_role_set := True, system_message := SYSTEM_MESSAGE\<rparr>))) (\<lambda>_.
              thn (openai_send (Text (dumps E session_update_instructions))) (\<lambda>_.
                openai_send (Mapping (response_create (role_thanks role)))))
            else ret ())))
       else ret ())"

definition on_transcription_completed :: "env \<Rightarrow> string \<Rightarrow> json \<Rightarrow> unit m" where
  "on_transcription_completed E call_uuid response =
     thn (lift (py_get response ''item_id'' JNull)) (\<lambda>item_id.
     thn (lift (py_get response ''transcript'' (JStr []))) (\<lambda>full_transcript.
     thn (gets (\<lambda>w. call_data w call_uuid)) (\<lambda>found.
       case found of
         None \<Rightarrow> ret ()
       | Some s \<Rightarrow>
           if \<not> hashable item_id then raise TypeError
           else
             thn (modify (update_session call_uuid (\<lambda>s. s\<lparr>transcriptions :=
                    dict_set (transcriptions s) item_id
                      \<lparr>tr_text = full_transcript, tr_complete = True\<rparr>\<rparr>))) (\<lambda>_.
               if \<not> user_exists s \<and> \<not> user_role_set s
               then capture_role E call_uuid (caller_number s) full_transcript
               else ret ()))))"

text \<open>\<open>input_audio_buffer.speech_started\<close> (lines 451-463).\<close>

definition get_stream_id :: "json m" where
  "get_stream_id =
     (\<lambda>w. case stream_id w of None \<Rightarrow> (Inl AttributeError, w) | Some sid \<Rightarrow> (Inr sid, w))"

definition clear_audio :: "json \<Rightarrow> json" where
  "clear_audio sid = JObj [(''event'', JStr ''clearAudio''), (''stream_id'', sid)]"

definition response_cancel :: json where
  "response_cancel = JObj [(''type'', JStr ''response.cancel'')]"

definition on_speech_started :: "env \<Rightarrow> unit m" where
  "on_speech_started E =
     thn get_stream_id (\<lambda>sid.
     thn (plivo_send (dumps E (clear_audio sid))) (\<lambda>_.
       openai_send (Mapping response_cancel)))"

text \<open>\<open>response.function_call_arguments.done\<close> (lines 276-394): the tool dispatcher.\<close>

text \<open>The email of a booking (lines 320-322 and 359-361, the same statements): the
  profile email of a caller whose lookup succeeded, the given one otherwise.\<close>

definition profile_email :: "session \<Rightarrow> json \<Rightarrow> error + json" where
  "profile_email s email =
     (if user_exists s \<and> truthy (user_details s)
      then
        (case py_item (user_details s) ''status'' of
           Inl x \<Rightarrow> Inl x
         | Inr st \<Rightarrow>
             if py_eq st (JStr ''success'')
             then
               (case py_item (user_details s) ''data'' of
                  Inl x \<Rightarrow> Inl x
                | Inr d \<Rightarrow>
                    (case py_get d ''email'' JNull of
                       Inl x \<Rightarrow> Inl x
                     | Inr e \<Rightarrow> if truthy e then py_item d ''email'' else Inr email))
             else Inr email)
      else Inr email)"

definition resolve_email :: "string \<Rightarrow> json \<Rightarrow> json m" where
  "resolve_email call_uuid email =
     thn (gets (\<lambda>w. call_data w call_uuid)) (\<lambda>found.
       case found of
         None \<Rightarrow> ret email
       | Some s \<Rightarrow> lift (profile_email s email))"

text \<open>An append to one of the logs, made only while the call record exists; the
  entry carries a clock reading.\<close>

definition record_event :: "env \<Rightarrow> string \<Rightarrow> (timestamp \<Rightarrow> session \<Rightarrow> session) \<Rightarrow> unit m" where
  "record_event E call_uuid f =
     thn (gets (\<lambda>w. call_data w call_uuid)) (\<lambda>found.
       case found of
         None \<Rightarrow> ret ()
       | Some _ \<Rightarrow> thn (time_time E) (\<lambda>ts. modify (update_session call_uuid (f ts))))"

definition add_function_call :: "function_call \<Rightarrow> session \<Rightarrow> session" where
  "add_function_call c s = s\<lparr>function_calls := function_calls s @ [c]\<rparr>"

definition add_appointment :: "appointment \<Rightarrow> session \<Rightarrow> session" where
  "add_appointment a s = s\<lparr>appointments := appointments s @ [a]\<rparr>"

definition booked_instructions :: "env \<Rightarrow> json \<Rightarrow> string" where
  "booked_instructions E proposed_time =
     ''Tell the user that the time ('' @ fstr E proposed_time @
     '') was available and has been successfully booked. Confirm the appointment details.''"

definition booking_error_instructions :: "env \<Rightarrow> json \<Rightarrow> json \<Rightarrow> string" where
  "booking_error_instructions E proposed_time err =
     ''Tell the user that the time ('' @ fstr E proposed_time @
     '') is available, but there was an error booking: '' @ fstr E err @
     ''. Suggest trying again or choosing another time.''"

definition unavailable_instructions :: "env \<Rightarrow> json \<Rightarrow> string" where
  "unavailable_instructions E proposed_time =
     ''Inform the user that the requested time ('' @ fstr E proposed_time @
     '') is not available. Suggest they ask for another time.''"

definition check_slot_availability :: "env \<Rightarrow> string \<Rightarrow> json \<Rightarrow> json \<Rightarrow> (json \<times> string) m" where
  "check_slot_availability E call_uuid args item_id =
     thn (lift (py_item args ''proposed_time'')) (\<lambda>proposed_time.
     thn (lift (is_slot_available E proposed_time)) (\<lambda>availability.
     thn (record_event E call_uuid (\<lambda>ts. add_function_call
            \<lparr>fc_type = ''check_availability'', fc_timestamp = ts, fc_args = args,
             fc_result = JObj [(''is_available'', availability),
                               (''proposed_time'', proposed_time)],
             fc_item_id = item_id\<rparr>)) (\<lambda>_.
       if truthy availability
       then
         thn (resolve_email call_uuid (JStr ''customer@example.com'')) (\<lambda>email.
         thn (lift (book_slot_handler E proposed_time email)) (\<lambda>booking_result.
         thn (record_event E call_uuid (\<lambda>ts. add_appointment
                \<lparr>ap_timestamp = ts, ap_proposed_time = proposed_time, ap_email = email,
                 ap_result = booking_result, ap_item_id = item_id\<rparr>)) (\<lambda>_.
           (let result = JObj [(''is_available'', JBool True),
                               (''proposed_time'', proposed_time),
                               (''booking_result'', booking_result)] in
            thn (lift (py_in ''error'' booking_result)) (\<lambda>failed.
              if failed
              then thn (lift (py_get booking_result ''error'' JNull)) (\<lambda>err.
                     ret (result, booking_error_instructions E proposed_time err))
              else ret (result, booked_instructions E proposed_time))))))
       else ret (JObj [(''is_available'', JBool False), (''proposed_time'', proposed_time)],
                 unavailable_instructions E proposed_time))))"

definition book_appointment :: "env \<Rightarrow> string \<Rightarrow> json \<Rightarrow> json \<Rightarrow> (json \<times> string) m" where
  "book_appointment E call_uuid args item_id =
     thn (lift (py_item args ''proposed_time'')) (\<lambda>proposed_time.
     thn (lift (py_get args ''email'' (JStr ''customer@example.com''))) (\<lambda>given.
     thn (resolve_email call_uuid given) (\<lambda>email.
     thn (lift (book_slot_handler E proposed_time email)) (\<lambda>result.
     thn (lift (py_in ''error'' result)) (\<lambda>failed.
       (let instructions =
              ''Inform the user about the appointment booking result for '' @
              fstr E proposed_time @ ''.'' @
              (if failed then '' Apologize and suggest trying another time slot.''
               else '' Confirm the appointment was successfully booked.'') in
        thn (record_event E call_uuid (\<lambda>ts. add_appointment
               \<lparr>ap_timestamp = ts, ap_proposed_time = proposed_time, ap_email = email,
                ap_result = result, ap_item_id = item_id\<rparr>)) (\<lambda>_.
          ret (result, instructions))))))))"

text \<open>The four recognised names; any other name leaves \<open>result = None\<close> and
  \<open>instructions = ''\<close>.\<close>

definition dispatch :: "env \<Rightarrow> string \<Rightarrow> json \<Rightarrow> json \<Rightarrow> json \<Rightarrow> (json \<times> string) m" where
  "dispatch E call_uuid function_name args item_id =
     (if py_eq function_name (JStr ''search_product_database'')
      then thn (lift (py_item args ''query'')) (\<lambda>query.
           thn (total (search_product_database E query)) (\<lambda>answer.
             ret (JStr answer,
                  ''Share the product information from the database search with the user in a helpful way.'')))
      else if py_eq function_name (JStr ''get_available_slots'')
      then thn (lift (get_available_slots_handler E)) (\<lambda>slots.
             ret (slots,
                  ''Share the available appointment slots with the user. Format the times in a clear, easy-to-understand way.''))
      else if py_eq function_name (JStr ''check_slot_availability'')
      then check_slot_availability E call_uuid args item_id
      else if py_eq function_name (JStr ''book_appointment'')
      then book_appointment E call_uuid args item_id
      else ret (JNull, []))"

definition function_call_output :: "env \<Rightarrow> json \<Rightarrow> json \<Rightarrow> json \<Rightarrow> json" where
  "function_call_output E result item_id call_id =
     JObj [(''type'', JStr ''conversation.item.create''),
           (''item'', JObj [(''id'', item_id),
                            (''type'', JStr ''function_call_output''),
                            (''call_id'', call_id),
                            (''output'', JStr (dumps E (JObj [(''result'', result)])))])]"

text \<open>\<open>json.loads\<close> of a field of a decoded frame: the field must be a string.\<close>

definition loads_value :: "env \<Rightarrow> json \<Rightarrow> error + json" where
  "loads_value E v =
     (case v of
        JStr s \<Rightarrow> (case loads E s of None \<Rightarrow> Inl JSONDecodeError | Some j \<Rightarrow> Inr j)
      | _ \<Rightarrow> Inl TypeError)"

definition on_function_call :: "env \<Rightarrow> string \<Rightarrow> json \<Rightarrow> unit m" where
  "on_function_call E call_uuid response =
     thn (lift (py_get response ''name'' (JStr []))) (\<lambda>function_name.
     thn (lift (py_item response ''arguments'')) (\<lambda>arguments.
     thn (lift (loads_value E arguments)) (\<lambda>args.
     thn (lift (py_get response ''item_id'' (JStr []))) (\<lambda>item_id.
     thn (lift (py_get response ''call_id'' (JStr []))) (\<lambda>call_id.
     thn (dispatch E call_uuid function_name args item_id) (\<lambda>(result, instructions).
       if truthy result
       then thn (openai_send (Text (dumps E (function_call_output E result item_id call_id)))) (\<lambda>_.
              openai_send (Text (dumps E (response_create instructions))))
       else ret ()))))))"

subsection \<open>\<open>receive_from_openai\<close>: one inbound frame of the AI session\<close>

definition receive_from_openai_body :: "env \<Rightarrow> string \<Rightarrow> string \<Rightarrow> unit m" where
  "receive_from_openai_body E call_uuid message =
     thn (lift (case loads E message of None \<Rightarrow> Inl JSONDecodeError | Some r \<Rightarrow> Inr r)) (\<lambda>response.
     thn (lift (py_get response ''type'' (JStr ''unknown''))) (\<lambda>response_type.
       if py_eq response_type (JStr ''session.updated'') then ret ()
       else if py_eq response_type (JStr ''error'') then modify (log_error (Reported response))
       else if py_eq response_type (JStr ''response.text.delta'')
         then on_text_delta E call_uuid response
       else if py_eq response_type (JStr ''response.audio.delta'')
         then on_audio_delta E response
       else if py_eq response_type (JStr ''response.function_call_arguments.done'')
         then on_function_call E call_uuid response
       else if py_eq response_type (JStr ''conversation.item.input_audio_transcription.delta'')
         then on_transcription_delta call_uuid response
       else if py_eq response_type (JStr ''conversation.item.input_audio_transcription.completed'')
         then on_transcription_completed E call_uuid response
       else if py_eq response_type (JStr ''input_audio_buffer.speech_started'')
         then on_speech_started E
       else ret ()))"

text \<open>The \<open>except Exception\<close> around the whole handler logs and returns.\<close>

definition receive_from_openai :: "env \<Rightarrow> string \<Rightarrow> string \<Rightarrow> world \<Rightarrow> world" where
  "receive_from_openai E call_uuid message w =
     (case receive_from_openai_body E call_uuid message w of
        (Inr _, w') \<Rightarrow> w'
      | (Inl e, w') \<Rightarrow> log_error (Caught e) w')"

text \<open>The loop \<open>async for message in openai_ws\<close> of \<open>handle_message\<close>.\<close>

fun openai_pump :: "env \<Rightarrow> string \<Rightarrow> string list \<Rightarrow> world \<Rightarrow> world" where
  "openai_pump E call_uuid [] w = w"
| "openai_pump E call_uuid (message # rest) w =
     openai_pump E call_uuid rest (receive_from_openai E call_uuid message w)"

section \<open>Post-call processing\<close>

text \<open>\<open>generate_inquiry_invoice\<close> (\<open>tools.py\<close>) returns the model's text, or a
  fallback text when the model raises.\<close>

definition generate_inquiry_invoice :: "env \<Rightarrow> string \<Rightarrow> world \<Rightarrow> string \<times> world" where
  "generate_inquiry_invoice E transcript_and_queries w =
     (case invoice_model E transcript_and_queries of
        Inr answer \<Rightarrow> (answer, w)
      | Inl e \<Rightarrow>
          (''Thank you for your call. (Error generating summary: '' @ err_str E e @ '')'',
           log_error (Caught e) w))"

text \<open>\<open>upload_text_to_pdf_and_get_short_url\<close> (\<open>tools_two.py\<close>) returns the link,
  or \<open>None\<close> when anything raises.\<close>

definition upload_text_to_pdf_and_get_short_url :: "env \<Rightarrow> string \<Rightarrow> world \<Rightarrow> json \<times> world" where
  "upload_text_to_pdf_and_get_short_url E text_content w =
     (case pdf_upload E text_content of
        Inr url \<Rightarrow> (url, w)
      | Inl e \<Rightarrow> (JNull, log_error (Caught e) w))"

text \<open>The two delivery functions of \<open>tools.py\<close> log and re-raise.\<close>

definition send_templated_message :: "env \<Rightarrow> string \<Rightarrow> json \<Rightarrow> string \<Rightarrow> unit m" where
  "send_templated_message E recipient_number url number =
     (\<lambda>w. case template_request E recipient_number url number of
             None \<Rightarrow> (Inr (), w)
           | Some e \<Rightarrow> (Inl e, log_error (Caught e) w))"

definition send_simple_whatsapp :: "env \<Rightarrow> string \<Rightarrow> string \<Rightarrow> unit m" where
  "send_simple_whatsapp E recipient_number message_text =
     (\<lambda>w. case text_request E recipient_number message_text of
             None \<Rightarrow> (Inr (), w)
           | Some e \<Rightarrow> (Inl e, log_error (Caught e) w))"

text \<open>The inner \<open>try\<close> of \<open>after_call_hangup\<close> (lines 697-709): the link if there
  is one, the plain text otherwise; a failure is logged and goes no further.\<close>

definition deliver :: "env \<Rightarrow> string \<Rightarrow> string \<Rightarrow> unit m" where
  "deliver E caller invoice =
     thn (total (upload_text_to_pdf_and_get_short_url E invoice)) (\<lambda>short_url.
       if truthy short_url
       then thn (modify (emit (SentTemplate caller short_url))) (\<lambda>_.
              send_templated_message E caller short_url caller)
       else thn (modify (emit (SentText caller invoice))) (\<lambda>_.
              send_simple_whatsapp E caller invoice))"

definition try_deliver :: "env \<Rightarrow> string \<Rightarrow> string \<Rightarrow> unit m" where
  "try_deliver E caller invoice =
     (\<lambda>w. case deliver E caller invoice w of
             (Inr _, w') \<Rightarrow> (Inr (), w')
           | (Inl e, w') \<Rightarrow> (Inr (), log_error (Caught e) w'))"

definition drop_session :: "string \<Rightarrow> world \<Rightarrow> world" where
  "drop_session call_uuid w =
     (if call_data w call_uuid \<noteq> None then delete_session call_uuid w else w)"

text \<open>The outer \<open>try\<close> (lines 587-711). A record with no transcription, no function
  call and no assistant response is deleted at once.\<close>

definition after_call_hangup_body :: "env \<Rightarrow> string \<Rightarrow> session \<Rightarrow> unit m" where
  "after_call_hangup_body E call_uuid call_info =
     (if transcriptions call_info = [] \<and> function_calls call_info = [] \<and>
         assistant_responses call_info = []
      then modify (drop_session call_uuid)
      else
        thn (gets ticks) (\<lambda>t.
        thn (modify (\<lambda>w. w\<lparr>ticks := t + length (transcriptions call_info)\<rparr>)) (\<lambda>_.
        thn (lift (render_transcript E call_info t)) (\<lambda>transcript_text.
        thn (modify (emit (Summarized call_uuid transcript_text))) (\<lambda>_.
        thn (total (generate_inquiry_invoice E transcript_text)) (\<lambda>invoice.
          if caller_number call_info \<noteq> [] \<and> caller_number call_info \<noteq> ''unknown''
          then try_deliver E (caller_number call_info) invoice
          else ret ()))))))"

text \<open>\<open>after_call_hangup\<close> (lines 577-719): nothing without a call record; otherwise
  the body, the \<open>except\<close> that logs, and the \<open>finally\<close> that deletes the record
  if it is still there.\<close>

definition after_call_hangup :: "env \<Rightarrow> string \<Rightarrow> world \<Rightarrow> world" where
  "after_call_hangup E call_uuid w =
     (case call_data w call_uuid of
        None \<Rightarrow> w
      | Some call_info \<Rightarrow>
          drop_session call_uuid
            (case after_call_hangup_body E call_uuid call_info w of
               (Inr _, w') \<Rightarrow> w'
             | (Inl e, w') \<Rightarrow> log_error (Caught e) w'))"

section \<open>The telephony pump and the ends of a call\<close>

text \<open>What \<open>await plivo_ws.receive()\<close> gives: a frame, the closing of the
  connection, or another exception.\<close>

datatype plivo_in = Recv string | RecvClosed | RecvFailed error

datatype loop = Continue | Break

definition close_openai :: "world \<Rightarrow> world" where
  "close_openai w = (if openai_open w then w\<lparr>openai_open := False\<rparr> else w)"

definition audio_append :: "json \<Rightarrow> json" where
  "audio_append p = JObj [(''type'', JStr ''input_audio_buffer.append''), (''audio'', p)]"

text \<open>One turn of the \<open>while True\<close> loop of \<open>receive_from_plivo\<close> on a received
  frame (lines 202-221).\<close>

definition plivo_frame :: "env \<Rightarrow> string \<Rightarrow> string \<Rightarrow> loop m" where
  "plivo_frame E call_uuid message =
     thn (lift (case loads E message of None \<Rightarrow> Inl JSONDecodeError | Some d \<Rightarrow> Inr d)) (\<lambda>data.
     thn (lift (py_item data ''event'')) (\<lambda>ev.
     thn (gets openai_open) (\<lambda>is_open.
       if py_eq ev (JStr ''media'') \<and> is_open
       then thn (lift (py_item data ''media'')) (\<lambda>media.
            thn (lift (py_item media ''payload'')) (\<lambda>p.
            thn (openai_send (Text (dumps E (audio_append p)))) (\<lambda>_.
              ret Continue)))
       else if py_eq ev (JStr ''start'')
       then thn (lift (py_item data ''start'')) (\<lambda>st.
            thn (lift (py_item st ''streamId'')) (\<lambda>sid.
            thn (modify (\<lambda>w. w\<lparr>stream_id := Some sid\<rparr>)) (\<lambda>_.
              ret Continue)))
       else if py_eq ev (JStr ''hangup'')
       then thn (modify (after_call_hangup E call_uuid)) (\<lambda>_.
            thn (modify close_openai) (\<lambda>_.
              ret Break))
       else ret Continue)))"

text \<open>The two \<open>except\<close> clauses around the loop (lines 223-230); both end the pump.\<close>

definition plivo_except :: "env \<Rightarrow> string \<Rightarrow> error \<Rightarrow> world \<Rightarrow> world" where
  "plivo_except E call_uuid e w =
     (if e = ConnectionClosed
      then close_openai (after_call_hangup E call_uuid w)
      else after_call_hangup E call_uuid (log_error (Caught e) w))"

text \<open>The pump on the inputs it is given, in order. The result says whether the
  pump is still receiving or has returned, leaving the rest unread.\<close>

datatype pump = Receiving | Returned

fun receive_from_plivo :: "env \<Rightarrow> string \<Rightarrow> plivo_in list \<Rightarrow> world \<Rightarrow> pump \<times> world" where
  "receive_from_plivo E call_uuid [] w = (Receiving, w)"
| "receive_from_plivo E call_uuid (RecvClosed # rest) w =
     (Returned, plivo_except E call_uuid ConnectionClosed w)"
| "receive_from_plivo E call_uuid (RecvFailed e # rest) w =
     (Returned, plivo_except E call_uuid e w)"
| "receive_from_plivo E call_uuid (Recv message # rest) w =
     (case plivo_frame E call_uuid message w of
        (Inr Continue, w') \<Rightarrow> receive_from_plivo E call_uuid rest w'
      | (Inr Break, w') \<Rightarrow> (Returned, w')
      | (Inl e, w') \<Rightarrow> (Returned, plivo_except E call_uuid e w'))"

text \<open>The three \<open>except\<close> clauses of \<open>handle_message\<close> (lines 187-195): the task
  was cancelled, the AI-session socket closed, or another exception.\<close>

datatype exit_cause = Cancelled | Closed | Failed error

definition handle_message_except :: "env \<Rightarrow> string \<Rightarrow> exit_cause \<Rightarrow> world \<Rightarrow> world" where
  "handle_message_except E call_uuid c w =
     after_call_hangup E call_uuid
       (case c of Failed e \<Rightarrow> log_error (Caught e) w | _ \<Rightarrow> w)"

text \<open>
  What can happen to a call once both pumps run: an input of the telephony pump, a
  frame of the AI session, or an exception reaching \<open>handle_message\<close>.
  \<open>after_call_hangup\<close> has no \<open>await\<close>, and no handler of
  \<open>receive_from_openai\<close> touches \<open>call_data\<close> after one, so the tasks of one
  call interleave as a sequence of such steps.
\<close>

datatype step = FromPlivo plivo_in | FromOpenAI string | Exit exit_cause

fun call_step :: "env \<Rightarrow> string \<Rightarrow> world \<Rightarrow> step \<Rightarrow> world" where
  "call_step E call_uuid w (FromPlivo i) = snd (receive_from_plivo E call_uuid [i] w)"
| "call_step E call_uuid w (FromOpenAI message) = receive_from_openai E call_uuid message w"
| "call_step E call_uuid w (Exit c) = handle_message_except E call_uuid c w"

definition run :: "env \<Rightarrow> string \<Rightarrow> step list \<Rightarrow> world \<Rightarrow> world" where
  "run E call_uuid steps w = foldl (call_step E call_uuid) w steps"

section \<open>A test double of the libraries and services\<close>

text \<open>
  To run the relay on concrete frames, the parameters are given small stand-ins: a
  printer for \<open>json.dumps\<close> (no escapes, numbers with at most one decimal place), a
  table of the frames of the examples for \<open>json.loads\<close>, a table for the base64
  codec, a clock that counts seconds, a calendar with one free slot and no slot to
  list, an empty product index, and services that succeed.
\<close>

fun digits :: "nat \<Rightarrow> string" where
  "digits n =
     (if n < 10 then [''0123456789'' ! n]
      else digits (n div 10) @ [''0123456789'' ! (n mod 10)])"

definition show_number :: "rat \<Rightarrow> string" where
  "show_number n =
     (if n = of_int \<lfloor>n\<rfloor> then digits (nat \<lfloor>n\<rfloor>)
      else digits (nat \<lfloor>n\<rfloor>) @ ''.'' @ digits (nat \<lfloor>10 * n\<rfloor> mod 10))"

fun join :: "string \<Rightarrow> string list \<Rightarrow> string" where
  "join sep [] = []"
| "join sep [x] = x"
| "join sep (x # y # ys) = x @ sep @ join sep (y # ys)"

fun test_dumps :: "json \<Rightarrow> string" where
  "test_dumps JNull = ''null''"
| "test_dumps (JBool b) = (if b then ''true'' else ''false'')"
| "test_dumps (JNum n) = show_number n"
| "test_dumps (JStr s) = [CHR 0x22] @ s @ [CHR 0x22]"
| "test_dumps (JArr xs) = ''['' @ join '', '' (map test_dumps xs) @ '']''"
| "test_dumps (JObj kvs) =
     ''{'' @ join '', '' (map (\<lambda>kv. [CHR 0x22] @ fst kv @ [CHR 0x22] @ '': '' @ test_dumps (snd kv)) kvs) @ ''}''"

text \<open>The frames of the examples, as text and decoded.\<close>

definition audio_frame :: string where
  \<open>audio_frame = ''{"type": "response.audio.delta", "delta": "aGk="}''\<close>

definition speech_frame :: string where
  \<open>speech_frame = ''{"type": "input_audio_buffer.speech_started"}''\<close>

definition heard_A :: string where
  \<open>heard_A = ''{"type": "conversation.item.input_audio_transcription.delta", "item_id": "item_1", "delta": "A"}''\<close>

definition heard_B :: string where
  \<open>heard_B = ''{"type": "conversation.item.input_audio_transcription.delta", "item_id": "item_1", "delta": "B"}''\<close>

definition heard_all :: string where
  \<open>heard_all = ''{"type": "conversation.item.input_audio_transcription.completed", "item_id": "item_1", "transcript": "I am a Contractor"}''\<close>

definition heard_more :: string where
  \<open>heard_more = ''{"type": "conversation.item.input_audio_transcription.completed", "item_id": "item_2", "transcript": "a customer of yours"}''\<close>

definition said_A :: string where
  \<open>said_A = ''{"type": "response.text.delta", "item_id": "resp_1", "delta": "A"}''\<close>

definition said_B :: string where
  \<open>said_B = ''{"type": "response.text.delta", "item_id": "resp_1", "delta": "B"}''\<close>

definition start_frame :: string where
  \<open>start_frame = ''{"event": "start", "start": {"streamId": "stream-1"}}''\<close>

definition hangup_frame :: string where
  \<open>hangup_frame = ''{"event": "hangup"}''\<close>

definition free_time :: string where
  "free_time = ''2024-05-15T14:30:00''"

definition taken_time :: string where
  "taken_time = ''2024-05-16T09:00:00''"

definition time_arguments :: "string \<Rightarrow> string" where
  \<open>time_arguments t = ''{"proposed_time": "'' @ t @ ''"}''\<close>

definition time_email_arguments :: "string \<Rightarrow> string \<Rightarrow> string" where
  \<open>time_email_arguments t e = ''{"proposed_time": "'' @ t @ ''", "email": "'' @ e @ ''"}''\<close>

definition call_frame :: "string \<Rightarrow> string \<Rightarrow> json" where
  "call_frame name arguments =
     JObj [(''type'', JStr ''response.function_call_arguments.done''),
           (''name'', JStr name), (''arguments'', JStr arguments),
           (''item_id'', JStr ''item_9''), (''call_id'', JStr ''call_9'')]"

definition test_frames :: "(string \<times> json) list" where
  "test_frames =
     [(audio_frame, JObj [(''type'', JStr ''response.audio.delta''), (''delta'', JStr ''aGk='')]),
      (speech_frame, JObj [(''type'', JStr ''input_audio_buffer.speech_started'')]),
      (heard_A, JObj [(''type'', JStr ''conversation.item.input_audio_transcription.delta''),
                      (''item_id'', JStr ''item_1''), (''delta'', JStr ''A'')]),
      (heard_B, JObj [(''type'', JStr ''conversation.item.input_audio_transcription.delta''),
                      (''item_id'', JStr ''item_1''), (''delta'', JStr ''B'')]),
      (heard_all, JObj [(''type'', JStr ''conversation.item.input_audio_transcription.completed''),
                        (''item_id'', JStr ''item_1''),
                        (''transcript'', JStr ''I am a Contractor'')]),
      (heard_more, JObj [(''type'', JStr ''conversation.item.input_audio_transcription.completed''),
                         (''item_id'', JStr ''item_2''),
                         (''transcript'', JStr ''a customer of yours'')]),
      (said_A, JObj [(''type'', JStr ''response.text.delta''),
                     (''item_id'', JStr ''resp_1''), (''delta'', JStr ''A'')]),
      (said_B, JObj [(''type'', JStr ''response.text.delta''),
                     (''item_id'', JStr ''resp_1''), (''delta'', JStr ''B'')]),
      (''check free'', call_frame ''check_slot_availability'' (time_arguments free_time)),
      (''check taken'', call_frame ''check_slot_availability'' (time_arguments taken_time)),
      (''book free'', call_frame ''book_appointment''
                        (time_email_arguments free_time ''ada@example.org'')),
      (''list slots'', call_frame ''get_available_slots'' ''{}''),
      (''fly'', call_frame ''fly_to_the_moon'' ''{}''),
      (time_arguments free_time, JObj [(''proposed_time'', JStr free_time)]),
      (time_arguments taken_time, JObj [(''proposed_time'', JStr taken_time)]),
      (time_email_arguments free_time ''ada@example.org'',
         JObj [(''proposed_time'', JStr free_time), (''email'', JStr ''ada@example.org'')]),
      (''{}'', JObj []),
      (start_frame,
         JObj [(''event'', JStr ''start''), (''start'', JObj [(''streamId'', JStr ''stream-1'')])]),
      (hangup_frame, JObj [(''event'', JStr ''hangup'')])]"

fun error_name :: "error \<Rightarrow> string" where
  "error_name JSONDecodeError = ''JSONDecodeError''"
| "error_name (KeyError k) = ''KeyError: '' @ k"
| "error_name TypeError = ''TypeError''"
| "error_name AttributeError = ''AttributeError''"
| "error_name BinasciiError = ''binascii.Error''"
| "error_name ConnectionClosed = ''ConnectionClosed''"
| "error_name (ExternalError s) = s"

definition test_env :: env where
  "test_env =
     \<lparr>loads = map_of test_frames,
      dumps = test_dumps,
      repr = test_dumps,
      err_str = error_name,
      b64decode = map_of [(''aGk='', ''hi'')],
      b64encode = (\<lambda>audio. if audio = ''hi'' then ''aGk='' else []),
      clock = (\<lambda>n. 1700000000 + of_nat n),
      is_slot_available = (\<lambda>t. Inr (JBool (t = JStr free_time))),
      book_slot_handler = (\<lambda>t email.
        Inr (JObj [(''htmlLink'', JStr ''https://calendar.example/e1''), (''attendee'', email)])),
      get_available_slots_handler = Inr (JArr []),
      embed_content = (\<lambda>query. Inr (JObj [(''embedding'', JArr [JNum 1])])),
      index_query = (\<lambda>embedding. Inr (JObj [(''matches'', JArr [])])),
      summarize_matches = (\<lambda>texts query. Inr ''It is in stock.''),
      render_transcript = (\<lambda>call_info t. Inr ''CALL TRANSCRIPT & CONVERSATION''),
      invoice_model = (\<lambda>transcript. Inr ''Product Inquiry Summary''),
      pdf_upload = (\<lambda>content. Inr (JStr ''https://cleanuri.com/abc'')),
      template_request = (\<lambda>recipient url number. None),
      text_request = (\<lambda>recipient message_text. None)\<rparr>"

text \<open>A call of a first-time caller in progress, and the same call of a known caller
  whose registration is complete or incomplete.\<close>

definition new_caller :: session where
  "new_caller = new_session ''+15550100'' ''+15550199'' 1700000000 False JNull NEW_USER_SYSTEM_MESSAGE"

definition known_caller :: "json \<Rightarrow> session" where
  "known_caller details = new_session ''+15550100'' ''+15550199'' 1700000000 True details SYSTEM_MESSAGE"

definition ada :: json where
  "ada = JObj [(''phone_number'', JStr ''+15550100''), (''email'', JStr ''ada@example.org''),
               (''name'', JStr ''Ada''), (''location'', JNull), (''role'', JStr ''customer'')]"

definition pending_ada :: json where
  "pending_ada = JObj [(''phone_number'', JStr ''+15550100''), (''email'', JStr ''pending_17''),
               (''name'', JStr ''Ada''), (''location'', JNull), (''role'', JStr ''customer'')]"

definition test_world :: "session \<Rightarrow> world" where
  "test_world s =
     \<lparr>call_data = [''call-1'' \<mapsto> s],
      plivo_sent = [], openai_sent = [], plivo_open = True, openai_open = True,
      stream_id = Some (JStr ''stream-1''), logged = [], ticks = 0,
      registration_form = [], faults = [], trace = []\<rparr>"

section \<open>What a statement may change\<close>

text \<open>A statement always relates the world it starts in to the world it leaves.\<close>

definition always :: "(world \<Rightarrow> world \<Rightarrow> bool) \<Rightarrow> 'a m \<Rightarrow> bool" where
  "always R s = (\<forall>w. R w (snd (s w)))"

definition is_registration :: "effect \<Rightarrow> bool" where
  "is_registration x = (case x of Registered _ _ \<Rightarrow> True | _ \<Rightarrow> False)"

text \<open>
  The changes the handlers of the AI session make to one call: a missing record stays
  missing, an existing one stays, keeps its \<open>user_exists\<close> and never loses a
  declared role; the only effects are registrations.
\<close>

definition evolves :: "string \<Rightarrow> world \<Rightarrow> world \<Rightarrow> bool" where
  "evolves call_uuid w w' =
     ((case call_data w call_uuid of
         None \<Rightarrow> call_data w' call_uuid = None
       | Some s \<Rightarrow>
           (case call_data w' call_uuid of
              None \<Rightarrow> False
            | Some s' \<Rightarrow> user_exists s' = user_exists s \<and>
                         (user_role_set s \<longrightarrow> user_role_set s'))) \<and>
      filter (\<lambda>x. \<not> is_registration x) (trace w') =
        filter (\<lambda>x. \<not> is_registration x) (trace w))"

text \<open>A call whose caller has a role: known from the directory, or declared in this
  call; a call without a record counts as such.\<close>

definition declared :: "string \<Rightarrow> world \<Rightarrow> bool" where
  "declared call_uuid w =
     (case call_data w call_uuid of
        None \<Rightarrow> True
      | Some s \<Rightarrow> user_exists s \<or> user_role_set s)"

text \<open>The changes that leave the trace of effects alone.\<close>

definition silent :: "world \<Rightarrow> world \<Rightarrow> bool" where
  "silent w w' = (trace w' = trace w)"

text \<open>A frame that decodes to a dict with the given event type.\<close>

definition decodes :: "env \<Rightarrow> string \<Rightarrow> string \<Rightarrow> json \<Rightarrow> bool" where
  "decodes E message ty response =
     (loads E message = Some response \<and>
      py_get response ''type'' (JStr ''unknown'') = Inr (JStr ty))"

text \<open>No call yet, and a directory holding the given rows.\<close>

definition idle_world :: "json list \<Rightarrow> world" where
  "idle_world rows =
     \<lparr>call_data = Map.empty,
      plivo_sent = [], openai_sent = [], plivo_open = True, openai_open = True,
      stream_id = None, logged = [], ticks = 0,
      registration_form = rows, faults = [], trace = []\<rparr>"

text \<open>A caller whose directory record has a pending email: the call record as the
  lookup leaves it, and the call as the webhook starts it from the directory.\<close>

definition incomplete_caller :: session where
  "incomplete_caller =
     known_caller (status_object ''incomplete''
       ''Registration incomplete. Please fill up the registration form.'' pending_ada)"

definition pending_call :: world where
  "pending_call =
     snd (home test_env ''+15550100'' ''+15550199'' ''call-1'' (idle_world [pending_ada]))"

text \<open>The effects of post-call processing: the summarisation of a call, and a
  delivery attempt.\<close>

definition is_summary :: "string \<Rightarrow> effect \<Rightarrow> bool" where
  "is_summary call_uuid x = (case x of Summarized c _ \<Rightarrow> c = call_uuid | _ \<Rightarrow> False)"

definition is_delivery :: "effect \<Rightarrow> bool" where
  "is_delivery x = (case x of SentTemplate _ _ \<Rightarrow> True | SentText _ _ \<Rightarrow> True | _ \<Rightarrow> False)"

text \<open>The telephony frames and the other steps that end a call.\<close>

definition is_hangup :: "env \<Rightarrow> string \<Rightarrow> bool" where
  "is_hangup E message =
     (case loads E message of
        None \<Rightarrow> False
      | Some d \<Rightarrow> py_item d ''event'' = Inr (JStr ''hangup''))"

fun is_trigger :: "env \<Rightarrow> step \<Rightarrow> bool" where
  "is_trigger E (FromPlivo (Recv message)) = is_hangup E message"
| "is_trigger E (FromPlivo RecvClosed) = True"
| "is_trigger E (FromPlivo (RecvFailed e)) = True"
| "is_trigger E (FromOpenAI message) = False"
| "is_trigger E (Exit c) = True"

text \<open>A call that has talked: one transcription fragment is on record.\<close>

definition talked_caller :: session where
  "talked_caller =
     new_caller\<lparr>transcriptions := [(JStr ''item_1'', \<lparr>tr_text = JStr ''hello'', tr_complete = True\<rparr>)]\<rparr>"

text \<open>Services that fail: the transcript cannot be rendered; or the language model,
  the upload and the messaging client all raise.\<close>

definition no_transcript_env :: env where
  "no_transcript_env = test_env\<lparr>render_transcript := (\<lambda>call_info t. Inl TypeError)\<rparr>"

definition failing_env :: env where
  "failing_env =
     test_env\<lparr>invoice_model := (\<lambda>transcript. Inl (ExternalError ''gemini'')),
              pdf_upload := (\<lambda>content. Inl (ExternalError ''supabase'')),
              text_request := (\<lambda>recipient message_text. Some (ExternalError ''plivo''))\<rparr>"

text \<open>A messaging client that refuses the template message.\<close>

definition refusing_env :: env where
  "refusing_env =
     test_env\<lparr>template_request := (\<lambda>recipient url number. Some (ExternalError ''plivo''))\<rparr>"

text \<open>What a step of a call does to its record and to the effects of post-call
  processing: either the record stays as present or absent as it was and no
  summarisation, delivery or deletion is added; or the record was there and is gone,
  one deletion is added, and at most one summarisation and one delivery.\<close>

definition stays :: "string \<Rightarrow> world \<Rightarrow> world \<Rightarrow> bool" where
  "stays call_uuid w w' =
     ((call_data w' call_uuid = None) = (call_data w call_uuid = None) \<and>
      length (filter (is_summary call_uuid) (trace w')) =
        length (filter (is_summary call_uuid) (trace w)) \<and>
      length (filter is_delivery (trace w')) = length (filter is_delivery (trace w)) \<and>
      count_list (trace w') (Deleted call_uuid) = count_list (trace w) (Deleted call_uuid))"

definition ends :: "string \<Rightarrow> world \<Rightarrow> world \<Rightarrow> bool" where
  "ends call_uuid w w' =
     (call_data w call_uuid \<noteq> None \<and> call_data w' call_uuid = None \<and>
      length (filter (is_summary call_uuid) (trace w')) \<le>
        length (filter (is_summary call_uuid) (trace w)) + 1 \<and>
      length (filter is_delivery (trace w')) \<le> length (filter is_delivery (trace w)) + 1 \<and>
      count_list (trace w') (Deleted call_uuid) = count_list (trace w) (Deleted call_uuid) + 1)"

section \<open>Running statements\<close>

lemma thn_ret [simp]: "thn (ret x) f = f x"
  by (simp add: thn_def ret_def)

lemma thn_raise [simp]: "thn (raise e) f = raise e"
  by (simp add: thn_def raise_def)

lemma thn_lift_Inr [simp]: "thn (lift (Inr x)) f = f x"
  by (simp add: thn_def lift_def)

lemma thn_lift_Inl [simp]: "thn (lift (Inl e)) f = raise e"
  by (simp add: thn_def lift_def raise_def)

lemma thn_gets [simp]: "thn (gets g) f w = f (g w) w"
  by (simp add: thn_def gets_def)

lemma thn_modify [simp]: "thn (modify g) f w = f () (g w)"
  by (simp add: thn_def modify_def)

lemma thn_total [simp]: "thn (total g) f w = f (fst (g w)) (snd (g w))"
  by (simp add: thn_def total_def split: prod.splits)

text \<open>The handler a decoded frame of the AI session goes to.\<close>

lemma receive_event:
  assumes "loads E m = Some r" and "py_get r ''type'' (JStr ''unknown'') = Inr (JStr ty)"
  shows "receive_from_openai_body E cid m =
     (if ty = ''session.updated'' then ret ()
       else if ty = ''error'' then modify (log_error (Reported r))
       else if ty = ''response.text.delta'' then on_text_delta E cid r
       else if ty = ''response.audio.delta'' then on_audio_delta E r
       else if ty = ''response.function_call_arguments.done'' then on_function_call E cid r
       else if ty = ''conversation.item.input_audio_transcription.delta''
         then on_transcription_delta cid r
       else if ty = ''conversation.item.input_audio_transcription.completed''
         then on_transcription_completed E cid r
       else if ty = ''input_audio_buffer.speech_started'' then on_speech_started E
       else ret ())"
  using assms by (simp add: receive_from_openai_body_def)

lemma ret_apply [simp]: "ret x w = (Inr x, w)"
  by (simp add: ret_def)

lemma raise_apply [simp]: "raise e w = (Inl e, w)"
  by (simp add: raise_def)

lemma modify_apply [simp]: "modify g w = (Inr (), g w)"
  by (simp add: modify_def)

lemmas test_frame_defs =
  test_frames_def audio_frame_def speech_frame_def heard_A_def heard_B_def heard_all_def
  heard_more_def said_A_def said_B_def start_frame_def hangup_frame_def call_frame_def
  time_arguments_def time_email_arguments_def free_time_def taken_time_def

section \<open>Assistant audio\<close>

text \<open>
  C9. An assistant audio delta whose payload decodes puts exactly one frame on the open
  telephony socket: a \<open>playAudio\<close> frame with content type \<open>audio/x-mulaw\<close>,
  sample rate 8000 and, as payload, the base64 encoding of the decoded delta; nothing
  else changes. With a codec whose decoding undoes its encoding, the payload sent
  decodes to the audio bytes the delta decodes to.
\<close>

theorem audio_delta_forwarded:
  assumes "loads E message = Some response"
    and "py_get response ''type'' (JStr ''unknown'') = Inr (JStr ''response.audio.delta'')"
    and "py_item response ''delta'' = Inr (JStr delta)"
    and "b64decode E delta = Some audio"
    and "plivo_open w"
  shows "receive_from_openai E call_uuid message w =
           w\<lparr>plivo_sent := plivo_sent w @
              [dumps E (JObj [(''event'', JStr ''playAudio''),
                 (''media'', JObj [(''contentType'', JStr ''audio/x-mulaw''),
                                   (''sampleRate'', JNum 8000),
                                   (''payload'', JStr (b64encode E audio))])])]\<rparr>
         \<and> (b64decode E (b64encode E audio) = Some audio \<longrightarrow>
              b64decode E (b64encode E audio) = b64decode E delta)"
  using assms
  by (simp add: receive_from_openai_def receive_event on_audio_delta_def decode_audio_def
      plivo_send_def play_audio_def)

theorem audio_delta_forwarded_witness:
  "plivo_sent (receive_from_openai test_env ''call-1'' audio_frame (test_world new_caller)) =
     [test_dumps (JObj [(''event'', JStr ''playAudio''),
        (''media'', JObj [(''contentType'', JStr ''audio/x-mulaw''),
                          (''sampleRate'', JNum 8000),
                          (''payload'', JStr ''aGk='')])])]
   \<and> b64decode test_env ''aGk='' = Some ''hi''
   \<and> b64decode test_env (b64encode test_env ''hi'') = b64decode test_env ''aGk=''"
  using audio_delta_forwarded [of test_env audio_frame
      "JObj [(''type'', JStr ''response.audio.delta''), (''delta'', JStr ''aGk='')]"
      "''aGk=''" "''hi''" "test_world new_caller" "''call-1''"]
  by (simp add: test_env_def test_frame_defs test_world_def py_get_def py_item_def)

section \<open>Rules for what a statement may change\<close>

lemma always_ret: "(\<And>w. R w w) \<Longrightarrow> always R (ret x)"
  by (simp add: always_def)

lemma always_raise: "(\<And>w. R w w) \<Longrightarrow> always R (raise e)"
  by (simp add: always_def)

lemma always_lift: "(\<And>w. R w w) \<Longrightarrow> always R (lift r)"
  by (simp add: always_def lift_def)

lemma always_gets: "(\<And>w. R w w) \<Longrightarrow> always R (gets g)"
  by (simp add: always_def gets_def)

lemma always_modify: "(\<And>w. R w (g w)) \<Longrightarrow> always R (modify g)"
  by (simp add: always_def)

lemma always_total: "(\<And>w. R w (snd (g w))) \<Longrightarrow> always R (total g)"
  by (simp add: always_def total_def case_prod_unfold)

lemma always_thn:
  assumes "\<And>a b c. R a b \<Longrightarrow> R b c \<Longrightarrow> R a c"
    and "always R s" and "\<And>x. always R (f x)"
  shows "always R (thn s f)"
proof -
  have "R w (snd (thn s f w))" for w
  proof (cases "s w")
    case (Pair r w')
    then have 1: "R w w'" using assms(2) by (auto simp: always_def dest: spec [of _ w])
    show ?thesis
    proof (cases r)
      case (Inl e)
      with Pair 1 show ?thesis by (simp add: thn_def)
    next
      case (Inr x)
      have "R w' (snd (f x w'))" using assms(3) by (simp add: always_def)
      with 1 have "R w (snd (f x w'))" by (rule assms(1))
      with Pair Inr show ?thesis by (simp add: thn_def)
    qed
  qed
  then show ?thesis by (simp add: always_def)
qed

lemma always_if: "always R a \<Longrightarrow> always R b \<Longrightarrow> always R (if c then a else b)"
  by simp

lemma always_option:
  "always R a \<Longrightarrow> (\<And>x. always R (f x)) \<Longrightarrow> always R (case v of None \<Rightarrow> a | Some x \<Rightarrow> f x)"
  by (cases v) simp_all

lemma always_prod: "(\<And>x y. always R (f x y)) \<Longrightarrow> always R (case v of (x, y) \<Rightarrow> f x y)"
  by (cases v) simp_all

lemma always_let: "(\<And>x. always R (f x)) \<Longrightarrow> always R (let x = v in f x)"
  by simp

lemma evolves_refl: "evolves cid w w"
  by (simp add: evolves_def split: option.splits)

lemma evolves_trans: "evolves cid a b \<Longrightarrow> evolves cid b c \<Longrightarrow> evolves cid a c"
  by (auto simp: evolves_def split: option.splits)

lemma silent_refl: "silent w w"
  by (simp add: silent_def)

lemma silent_trans: "silent a b \<Longrightarrow> silent b c \<Longrightarrow> silent a c"
  by (simp add: silent_def)

lemmas evolves_rules =
  always_ret [of "evolves cid", OF evolves_refl]
  always_raise [of "evolves cid", OF evolves_refl]
  always_lift [of "evolves cid", OF evolves_refl]
  always_gets [of "evolves cid", OF evolves_refl]
  always_thn [of "evolves cid", OF evolves_trans]
  always_if always_option always_prod always_let
  for cid

lemmas silent_rules =
  always_ret [of silent, OF silent_refl]
  always_raise [of silent, OF silent_refl]
  always_lift [of silent, OF silent_refl]
  always_gets [of silent, OF silent_refl]
  always_thn [of silent, OF silent_trans]
  always_if always_option always_prod always_let

lemmas same_rules =
  always_ret [of "(=)", OF refl]
  always_raise [of "(=)", OF refl]
  always_lift [of "(=)", OF refl]
  always_gets [of "(=)", OF refl]
  always_thn [of "(=)", OF trans]
  always_if always_option always_prod always_let

subsection \<open>The handlers of the AI session keep a call's record and add only registrations\<close>

lemma evolves_update:
  "(\<And>s. user_exists (f s) = user_exists s \<and> (user_role_set s \<longrightarrow> user_role_set (f s))) \<Longrightarrow>
   evolves cid w (update_session c f w)"
  by (auto simp: evolves_def update_session_def split: option.splits)

lemma evolves_openai_send: "always (evolves cid) (openai_send p)"
  by (auto simp: always_def openai_send_def evolves_def split: option.splits payload.splits)

lemma evolves_plivo_send: "always (evolves cid) (plivo_send p)"
  by (auto simp: always_def plivo_send_def evolves_def split: option.splits)

lemma evolves_time: "always (evolves cid) (time_time E)"
  by (auto simp: always_def time_time_def evolves_def split: option.splits)

lemma evolves_log: "evolves cid w (log_error l w)"
  by (auto simp: log_error_def evolves_def split: option.splits)

lemma evolves_text_delta: "always (evolves cid) (on_text_delta E c r)"
  unfolding on_text_delta_def
  by (intro evolves_rules evolves_time always_modify evolves_update) simp_all

lemma evolves_audio: "always (evolves cid) (on_audio_delta E r)"
  unfolding on_audio_delta_def
  by (intro evolves_rules evolves_plivo_send)

lemma evolves_tdelta: "always (evolves cid) (on_transcription_delta c r)"
  unfolding on_transcription_delta_def
  by (intro evolves_rules evolves_time always_modify evolves_update) simp_all

lemma evolves_select: "always (evolves cid) (select_phone_number p)"
  by (auto simp: always_def select_phone_number_def execute_def evolves_def
      split: list.splits option.splits)

lemma evolves_insert: "always (evolves cid) (insert_row r)"
  by (auto simp: always_def insert_row_def execute_def evolves_def
      split: list.splits option.splits)

lemma evolves_registration_body: "always (evolves cid) (add_phone_with_role_body p r)"
  unfolding add_phone_with_role_body_def
  by (intro evolves_rules evolves_select evolves_insert)

lemma evolves_emit_registered: "evolves cid w (emit (Registered p r) w)"
  by (simp add: evolves_def emit_def is_registration_def split: option.splits)

lemma evolves_registration: "evolves cid w (snd (add_phone_with_role E p r w))"
proof -
  let ?w1 = "emit (Registered p r) w"
  have 1: "evolves cid w ?w1" by (rule evolves_emit_registered)
  have 2: "evolves cid ?w1 (snd (add_phone_with_role_body p r ?w1))"
    using evolves_registration_body [of cid p r] by (simp add: always_def)
  show ?thesis
  proof (cases "add_phone_with_role_body p r ?w1")
    case (Pair res w')
    with 2 have 3: "evolves cid ?w1 w'" by simp
    show ?thesis
    proof (cases res)
      case (Inl e)
      with Pair have "snd (add_phone_with_role E p r w) = log_error (Caught e) w'"
        by (simp add: add_phone_with_role_def)
      with 1 3 evolves_log [of cid w'] show ?thesis
        by (metis evolves_trans)
    next
      case (Inr x)
      with Pair have "snd (add_phone_with_role E p r w) = w'"
        by (simp add: add_phone_with_role_def)
      with 1 3 show ?thesis by (metis evolves_trans)
    qed
  qed
qed

lemma evolves_capture_role: "always (evolves cid) (capture_role E c caller t)"
  unfolding capture_role_def
  by (intro evolves_rules evolves_openai_send always_total always_modify evolves_update
      evolves_registration) simp_all

lemma evolves_completed: "always (evolves cid) (on_transcription_completed E c r)"
  unfolding on_transcription_completed_def
  by (intro evolves_rules evolves_capture_role always_modify evolves_update) simp_all

lemma evolves_get_stream_id: "always (evolves cid) get_stream_id"
  by (simp add: always_def get_stream_id_def evolves_refl split: option.splits)

lemma evolves_speech: "always (evolves cid) (on_speech_started E)"
  unfolding on_speech_started_def
  by (intro evolves_rules evolves_get_stream_id evolves_plivo_send evolves_openai_send)

lemma same_search_body: "always (=) (search_product_database_body E q)"
  unfolding search_product_database_body_def
  by (intro same_rules)

lemma evolves_search: "evolves cid w (snd (search_product_database E q w))"
proof (cases "search_product_database_body E q w")
  case (Pair res w')
  with same_search_body [of E q] have "w' = w" by (auto simp: always_def dest: spec [of _ w])
  with Pair show ?thesis
    by (cases res) (simp_all add: search_product_database_def evolves_refl evolves_log)
qed

lemma evolves_record_event:
  "(\<And>ts s. user_exists (f ts s) = user_exists s \<and> (user_role_set s \<longrightarrow> user_role_set (f ts s))) \<Longrightarrow>
   always (evolves cid) (record_event E c f)"
  unfolding record_event_def
  by (intro evolves_rules evolves_time always_modify evolves_update) simp_all

lemma evolves_resolve_email: "always (evolves cid) (resolve_email c e)"
  unfolding resolve_email_def
  by (intro evolves_rules)

lemma evolves_check_slot: "always (evolves cid) (check_slot_availability E c args i)"
  unfolding check_slot_availability_def
  by (intro evolves_rules evolves_record_event evolves_resolve_email)
     (simp_all add: add_function_call_def add_appointment_def)

lemma evolves_book: "always (evolves cid) (book_appointment E c args i)"
  unfolding book_appointment_def
  by (intro evolves_rules evolves_record_event evolves_resolve_email)
     (simp_all add: add_appointment_def)

lemma evolves_dispatch: "always (evolves cid) (dispatch E c n args i)"
  unfolding dispatch_def
  by (intro evolves_rules evolves_check_slot evolves_book always_total evolves_search)

lemma evolves_function_call: "always (evolves cid) (on_function_call E c r)"
  unfolding on_function_call_def
  by (intro evolves_rules evolves_dispatch evolves_openai_send)

lemma evolves_body: "always (evolves cid) (receive_from_openai_body E c m)"
  unfolding receive_from_openai_body_def
  by (intro evolves_rules evolves_text_delta evolves_audio evolves_function_call
      evolves_tdelta evolves_completed evolves_speech always_modify evolves_log)

lemma evolves_receive: "evolves cid w (receive_from_openai E c m w)"
proof (cases "receive_from_openai_body E c m w")
  case (Pair res w')
  with evolves_body [of cid E c m] have 1: "evolves cid w w'"
    by (auto simp: always_def dest: spec [of _ w])
  show ?thesis
  proof (cases res)
    case (Inl e)
    with Pair 1 evolves_log [of cid w'] show ?thesis
      by (auto simp: receive_from_openai_def intro: evolves_trans)
  next
    case (Inr x)
    with Pair 1 show ?thesis by (simp add: receive_from_openai_def)
  qed
qed

section \<open>Barge-in\<close>

text \<open>
  C3. On a speech-started event, with a stream id recorded and both sockets open, the
  relay sends exactly one \<open>clearAudio\<close> frame with that stream id to the telephony
  socket. The \<open>response.cancel\<close> message is handed to \<open>send\<close> as a dict, not
  as JSON text: \<open>send\<close> raises \<open>TypeError\<close>, the handler logs it, and nothing
  is sent to the AI session.
\<close>

theorem speech_started_sends_no_cancel:
  assumes "loads E message = Some response"
    and "py_get response ''type'' (JStr ''unknown'') =
           Inr (JStr ''input_audio_buffer.speech_started'')"
    and "stream_id w = Some sid"
    and "plivo_open w" and "openai_open w"
  shows "receive_from_openai E call_uuid message w =
           w\<lparr>plivo_sent := plivo_sent w @
                [dumps E (JObj [(''event'', JStr ''clearAudio''), (''stream_id'', sid)])],
             logged := logged w @ [Caught TypeError]\<rparr>
         \<and> openai_sent (receive_from_openai E call_uuid message w) = openai_sent w"
  using assms
  by (simp add: receive_from_openai_def receive_event on_speech_started_def get_stream_id_def
      plivo_send_def openai_send_def clear_audio_def log_error_def thn_def)

theorem speech_started_sends_no_cancel_witness:
  "plivo_sent (receive_from_openai test_env ''call-1'' speech_frame (test_world new_caller)) =
     [test_dumps (JObj [(''event'', JStr ''clearAudio''), (''stream_id'', JStr ''stream-1'')])]
   \<and> openai_sent (receive_from_openai test_env ''call-1'' speech_frame (test_world new_caller)) = []
   \<and> logged (receive_from_openai test_env ''call-1'' speech_frame (test_world new_caller)) =
       [Caught TypeError]"
  using speech_started_sends_no_cancel [of test_env speech_frame
      "JObj [(''type'', JStr ''input_audio_buffer.speech_started'')]"
      "test_world new_caller" "JStr ''stream-1''" "''call-1''"]
  by (simp add: test_env_def test_frame_defs test_world_def py_get_def)

section \<open>Utterance fragments\<close>

lemma thn_time_time [simp]:
  "thn (time_time E) f w = f (clock E (ticks w)) (w\<lparr>ticks := Suc (ticks w)\<rparr>)"
  by (simp add: thn_def time_time_def)

lemma py_eq_hashable_refl: "hashable k \<Longrightarrow> py_eq k k"
  by (cases k) simp_all

lemma dict_get_set_same: "py_eq k k \<Longrightarrow> dict_get (dict_set d k v) k = Some v"
  by (induction d k v rule: dict_set.induct) simp_all

lemma transcription_delta_step:
  assumes "call_data w cid = Some s"
    and "loads E m = Some r"
    and "py_get r ''type'' (JStr ''unknown'') =
           Inr (JStr ''conversation.item.input_audio_transcription.delta'')"
    and "py_get r ''item_id'' JNull = Inr item" and "hashable item"
    and "py_get r ''delta'' (JStr []) = Inr (JStr a)"
    and "(dict_get (transcriptions s) item = None \<and> old = [] \<and> \<not> c) \<or>
         dict_get (transcriptions s) item = Some \<lparr>tr_text = JStr old, tr_complete = c\<rparr>"
  shows "receive_from_openai E cid m w =
           w\<lparr>call_data := (call_data w)(cid \<mapsto> s\<lparr>transcriptions :=
               dict_set (transcriptions s) item \<lparr>tr_text = JStr (old @ a), tr_complete = c\<rparr>\<rparr>)\<rparr>"
  using assms
  by (auto simp: receive_from_openai_def receive_event on_transcription_delta_def
      update_session_def py_iadd_def)

lemma find_append_new:
  "\<not> list_ex P rs \<Longrightarrow> P x \<Longrightarrow> find P (rs @ [x]) = Some x"
  by (induction rs) simp_all

lemma extend_response_found:
  "find (\<lambda>r. py_eq (ar_item_id r) item) rs = Some r0 \<Longrightarrow> ar_text r0 = JStr old \<Longrightarrow>
   \<exists>rs'. extend_response item (JStr a) rs = Inr rs' \<and>
         find (\<lambda>r. py_eq (ar_item_id r) item) rs' = Some (r0\<lparr>ar_text := JStr (old @ a)\<rparr>)"
  by (induction rs) (auto simp: py_iadd_def)

lemma find_list_ex: "find P rs = Some r \<Longrightarrow> list_ex P rs"
  by (induction rs) (auto split: if_splits)

lemma text_delta_step:
  assumes "call_data w cid = Some s"
    and "loads E m = Some r"
    and "py_get r ''type'' (JStr ''unknown'') = Inr (JStr ''response.text.delta'')"
    and "py_get r ''item_id'' (JStr ''unknown'') = Inr item" and "hashable item"
    and "py_get r ''delta'' (JStr []) = Inr (JStr a)"
    and "(\<not> list_ex (\<lambda>r. py_eq (ar_item_id r) item) (assistant_responses s) \<and> old = []) \<or>
         map_option ar_text (find (\<lambda>r. py_eq (ar_item_id r) item) (assistant_responses s)) =
           Some (JStr old)"
  shows "\<exists>s'. call_data (receive_from_openai E cid m w) cid = Some s' \<and>
           map_option ar_text (find (\<lambda>r. py_eq (ar_item_id r) item) (assistant_responses s')) =
             Some (JStr (old @ a))"
  using assms(7)
proof
  assume fresh: "\<not> list_ex (\<lambda>r. py_eq (ar_item_id r) item) (assistant_responses s) \<and> old = []"
  with assms(1-6) show ?thesis
    by (simp add: receive_from_openai_def receive_event on_text_delta_def
        update_session_def find_append_new py_eq_hashable_refl)
next
  assume "map_option ar_text (find (\<lambda>r. py_eq (ar_item_id r) item) (assistant_responses s)) =
            Some (JStr old)"
  then obtain r0 where r0: "find (\<lambda>r. py_eq (ar_item_id r) item) (assistant_responses s) = Some r0"
    "ar_text r0 = JStr old" by auto
  from extend_response_found [OF r0, of a] obtain rs' where
    rs': "extend_response item (JStr a) (assistant_responses s) = Inr rs'"
      "find (\<lambda>r. py_eq (ar_item_id r) item) rs' = Some (r0\<lparr>ar_text := JStr (old @ a)\<rparr>)"
    by blast
  from r0(1) have ex: "list_ex (\<lambda>r. py_eq (ar_item_id r) item) (assistant_responses s)"
    by (rule find_list_ex)
  with assms(1-6) rs' show ?thesis
    by (simp add: receive_from_openai_def receive_event on_text_delta_def update_session_def)
qed

lemma registration_frame:
  "call_data (snd (add_phone_with_role E p r w)) = call_data w \<and>
   openai_sent (snd (add_phone_with_role E p r w)) = openai_sent w \<and>
   openai_open (snd (add_phone_with_role E p r w)) = openai_open w \<and>
   plivo_sent (snd (add_phone_with_role E p r w)) = plivo_sent w \<and>
   trace (snd (add_phone_with_role E p r w)) = trace w @ [Registered p r]"
  by (auto simp: add_phone_with_role_def add_phone_with_role_body_def select_phone_number_def
      insert_row_def execute_def emit_def log_error_def thn_def
      split: list.splits prod.splits sum.splits if_splits)

lemma capture_role_keeps_transcriptions:
  "always (\<lambda>w w'. map_option transcriptions (call_data w' cid) =
                   map_option transcriptions (call_data w cid))
     (capture_role E c caller t)"
  unfolding capture_role_def
  by (intro always_thn always_lift always_if always_let always_ret always_total always_modify)
     (auto simp: registration_frame update_session_def always_def openai_send_def
       split: option.splits payload.splits)

lemma completed_step:
  assumes "call_data w cid = Some s"
    and "decodes E m ''conversation.item.input_audio_transcription.completed'' r"
    and "py_get r ''item_id'' JNull = Inr item" and "hashable item"
    and "py_get r ''transcript'' (JStr []) = Inr f"
  shows "\<exists>s'. call_data (receive_from_openai E cid m w) cid = Some s' \<and>
           transcriptions s' =
             dict_set (transcriptions s) item \<lparr>tr_text = f, tr_complete = True\<rparr>"
proof -
  let ?w1 = "update_session cid (\<lambda>s. s\<lparr>transcriptions :=
               dict_set (transcriptions s) item \<lparr>tr_text = f, tr_complete = True\<rparr>\<rparr>) w"
  let ?T = "dict_set (transcriptions s) item \<lparr>tr_text = f, tr_complete = True\<rparr>"
  have w1: "map_option transcriptions (call_data ?w1 cid) = Some ?T"
    using assms(1) by (simp add: update_session_def)
  have logged: "map_option transcriptions (call_data (log_error l x) cid) =
                map_option transcriptions (call_data x cid)" for l x
    by (simp add: log_error_def)
  have "map_option transcriptions (call_data (receive_from_openai E cid m w) cid) = Some ?T"
  proof (cases "\<not> user_exists s \<and> \<not> user_role_set s")
    case True
    have "map_option transcriptions (call_data (snd (capture_role E cid (caller_number s) f ?w1)) cid)
            = Some ?T"
      using capture_role_keeps_transcriptions [of cid E cid "caller_number s" f] w1
      by (simp add: always_def)
    with assms True show ?thesis
      by (cases "capture_role E cid (caller_number s) f ?w1"; cases "fst (capture_role E cid (caller_number s) f ?w1)")
         (simp_all add: receive_from_openai_def receive_event decodes_def
           on_transcription_completed_def logged)
  next
    case False
    with assms w1 show ?thesis
      by (auto simp: receive_from_openai_def receive_event decodes_def
          on_transcription_completed_def)
  qed
  then show ?thesis by auto
qed

text \<open>
  C7. While the call record exists, two deltas for the same utterance id are appended
  in the order they arrive: with the text \<open>old\<close> accumulated before them (nothing
  for a new id), deltas \<open>a\<close> then \<open>b\<close> leave \<open>old @ a @ b\<close>, for the
  transcription fragments of the user and for the text fragments of the assistant
  alike. A transcription-complete event with final text \<open>f\<close> leaves exactly
  \<open>f\<close>, marked complete, whatever had been accumulated.
\<close>

theorem fragments_accumulate_in_order:
  assumes "call_data w call_uuid = Some s" and "hashable item"
  shows
    "(\<forall>m1 m2 r1 r2 a b old c.
        decodes E m1 ''conversation.item.input_audio_transcription.delta'' r1 \<and>
        py_get r1 ''item_id'' JNull = Inr item \<and>
        py_get r1 ''delta'' (JStr []) = Inr (JStr a) \<and>
        decodes E m2 ''conversation.item.input_audio_transcription.delta'' r2 \<and>
        py_get r2 ''item_id'' JNull = Inr item \<and>
        py_get r2 ''delta'' (JStr []) = Inr (JStr b) \<and>
        ((dict_get (transcriptions s) item = None \<and> old = [] \<and> \<not> c) \<or>
         dict_get (transcriptions s) item = Some \<lparr>tr_text = JStr old, tr_complete = c\<rparr>)
        \<longrightarrow> (\<exists>s'. call_data (openai_pump E call_uuid [m1, m2] w) call_uuid = Some s' \<and>
               dict_get (transcriptions s') item =
                 Some \<lparr>tr_text = JStr (old @ a @ b), tr_complete = c\<rparr>))
     \<and> (\<forall>m1 m2 r1 r2 a b old.
        decodes E m1 ''response.text.delta'' r1 \<and>
        py_get r1 ''item_id'' (JStr ''unknown'') = Inr item \<and>
        py_get r1 ''delta'' (JStr []) = Inr (JStr a) \<and>
        decodes E m2 ''response.text.delta'' r2 \<and>
        py_get r2 ''item_id'' (JStr ''unknown'') = Inr item \<and>
        py_get r2 ''delta'' (JStr []) = Inr (JStr b) \<and>
        ((\<not> list_ex (\<lambda>r. py_eq (ar_item_id r) item) (assistant_responses s) \<and> old = []) \<or>
         map_option ar_text (find (\<lambda>r. py_eq (ar_item_id r) item) (assistant_responses s)) =
           Some (JStr old))
        \<longrightarrow> (\<exists>s'. call_data (openai_pump E call_uuid [m1, m2] w) call_uuid = Some s' \<and>
               map_option ar_text
                 (find (\<lambda>r. py_eq (ar_item_id r) item) (assistant_responses s')) =
                 Some (JStr (old @ a @ b))))
     \<and> (\<forall>m r f.
        decodes E m ''conversation.item.input_audio_transcription.completed'' r \<and>
        py_get r ''item_id'' JNull = Inr item \<and>
        py_get r ''transcript'' (JStr []) = Inr (JStr f)
        \<longrightarrow> (\<exists>s'. call_data (receive_from_openai E call_uuid m w) call_uuid = Some s' \<and>
               dict_get (transcriptions s') item =
                 Some \<lparr>tr_text = JStr f, tr_complete = True\<rparr>))"
proof (intro conjI allI impI)
  fix m1 m2 r1 r2 a b old c
  assume h: "decodes E m1 ''conversation.item.input_audio_transcription.delta'' r1 \<and>
        py_get r1 ''item_id'' JNull = Inr item \<and>
        py_get r1 ''delta'' (JStr []) = Inr (JStr a) \<and>
        decodes E m2 ''conversation.item.input_audio_transcription.delta'' r2 \<and>
        py_get r2 ''item_id'' JNull = Inr item \<and>
        py_get r2 ''delta'' (JStr []) = Inr (JStr b) \<and>
        ((dict_get (transcriptions s) item = None \<and> old = [] \<and> \<not> c) \<or>
         dict_get (transcriptions s) item = Some \<lparr>tr_text = JStr old, tr_complete = c\<rparr>)"
  let ?s1 = "s\<lparr>transcriptions :=
               dict_set (transcriptions s) item \<lparr>tr_text = JStr (old @ a), tr_complete = c\<rparr>\<rparr>"
  let ?w1 = "w\<lparr>call_data := (call_data w)(call_uuid \<mapsto> ?s1)\<rparr>"
  have 1: "receive_from_openai E call_uuid m1 w = ?w1"
    using transcription_delta_step [OF assms(1), of E m1 r1 item a old c] assms(2) h
    by (simp add: decodes_def)
  have g1: "dict_get (transcriptions ?s1) item =
              Some \<lparr>tr_text = JStr (old @ a), tr_complete = c\<rparr>"
    using assms(2) by (simp add: dict_get_set_same py_eq_hashable_refl)
  have 2: "receive_from_openai E call_uuid m2 ?w1 =
             ?w1\<lparr>call_data := (call_data ?w1)(call_uuid \<mapsto> ?s1\<lparr>transcriptions :=
               dict_set (transcriptions ?s1) item
                 \<lparr>tr_text = JStr ((old @ a) @ b), tr_complete = c\<rparr>\<rparr>)\<rparr>"
    using transcription_delta_step [of ?w1 call_uuid ?s1 E m2 r2 item b "old @ a" c] assms(2) h g1
    by (simp add: decodes_def)
  show "\<exists>s'. call_data (openai_pump E call_uuid [m1, m2] w) call_uuid = Some s' \<and>
          dict_get (transcriptions s') item =
            Some \<lparr>tr_text = JStr (old @ a @ b), tr_complete = c\<rparr>"
    using assms(2) by (simp add: 1 2 dict_get_set_same py_eq_hashable_refl)
next
  fix m1 m2 r1 r2 a b old
  assume h: "decodes E m1 ''response.text.delta'' r1 \<and>
        py_get r1 ''item_id'' (JStr ''unknown'') = Inr item \<and>
        py_get r1 ''delta'' (JStr []) = Inr (JStr a) \<and>
        decodes E m2 ''response.text.delta'' r2 \<and>
        py_get r2 ''item_id'' (JStr ''unknown'') = Inr item \<and>
        py_get r2 ''delta'' (JStr []) = Inr (JStr b) \<and>
        ((\<not> list_ex (\<lambda>r. py_eq (ar_item_id r) item) (assistant_responses s) \<and> old = []) \<or>
         map_option ar_text (find (\<lambda>r. py_eq (ar_item_id r) item) (assistant_responses s)) =
           Some (JStr old))"
  let ?w1 = "receive_from_openai E call_uuid m1 w"
  from text_delta_step [OF assms(1), of E m1 r1 item a old] assms(2) h
  obtain s1 where s1: "call_data ?w1 call_uuid = Some s1"
    "map_option ar_text (find (\<lambda>r. py_eq (ar_item_id r) item) (assistant_responses s1)) =
       Some (JStr (old @ a))"
    by (auto simp: decodes_def)
  from text_delta_step [OF s1(1), of E m2 r2 item b "old @ a"] assms(2) h s1(2)
  show "\<exists>s'. call_data (openai_pump E call_uuid [m1, m2] w) call_uuid = Some s' \<and>
          map_option ar_text (find (\<lambda>r. py_eq (ar_item_id r) item) (assistant_responses s')) =
            Some (JStr (old @ a @ b))"
    by (auto simp: decodes_def)
next
  fix m r f
  assume h: "decodes E m ''conversation.item.input_audio_transcription.completed'' r \<and>
        py_get r ''item_id'' JNull = Inr item \<and>
        py_get r ''transcript'' (JStr []) = Inr (JStr f)"
  from completed_step [OF assms(1), of E m r item "JStr f"] assms(2) h
  show "\<exists>s'. call_data (receive_from_openai E call_uuid m w) call_uuid = Some s' \<and>
          dict_get (transcriptions s') item = Some \<lparr>tr_text = JStr f, tr_complete = True\<rparr>"
    by (auto simp: dict_get_set_same py_eq_hashable_refl)
qed

theorem fragments_accumulate_in_order_witness:
  "(\<exists>s'. call_data (openai_pump test_env ''call-1'' [heard_A, heard_B] (test_world new_caller))
            ''call-1'' = Some s' \<and>
          dict_get (transcriptions s') (JStr ''item_1'') =
            Some \<lparr>tr_text = JStr ''AB'', tr_complete = False\<rparr>)
   \<and> (\<exists>s'. call_data (openai_pump test_env ''call-1'' [said_A, said_B] (test_world new_caller))
            ''call-1'' = Some s' \<and>
          map_option ar_text
            (find (\<lambda>r. py_eq (ar_item_id r) (JStr ''resp_1'')) (assistant_responses s')) =
            Some (JStr ''AB''))
   \<and> (\<exists>s'. call_data (receive_from_openai test_env ''call-1'' heard_all (test_world new_caller))
            ''call-1'' = Some s' \<and>
          dict_get (transcriptions s') (JStr ''item_1'') =
            Some \<lparr>tr_text = JStr ''I am a Contractor'', tr_complete = True\<rparr>)"
proof -
  have s: "call_data (test_world new_caller) ''call-1'' = Some new_caller"
    by (simp add: test_world_def)
  have h1: "hashable (JStr ''item_1'')" and h2: "hashable (JStr ''resp_1'')"
    by simp_all
  note heard = fragments_accumulate_in_order [OF s h1, of test_env]
  note said = fragments_accumulate_in_order [OF s h2, of test_env]
  have a: "\<exists>s'. call_data (openai_pump test_env ''call-1'' [heard_A, heard_B] (test_world new_caller))
            ''call-1'' = Some s' \<and>
          dict_get (transcriptions s') (JStr ''item_1'') =
            Some \<lparr>tr_text = JStr ([] @ ''A'' @ ''B''), tr_complete = False\<rparr>"
    by (rule heard [THEN conjunct1, rule_format,
          where ?r1.0 = "JObj [(''type'', JStr ''conversation.item.input_audio_transcription.delta''),
                      (''item_id'', JStr ''item_1''), (''delta'', JStr ''A'')]"
            and ?r2.0 = "JObj [(''type'', JStr ''conversation.item.input_audio_transcription.delta''),
                      (''item_id'', JStr ''item_1''), (''delta'', JStr ''B'')]"])
       (simp add: decodes_def test_env_def test_frame_defs py_get_def new_caller_def
          new_session_def)
  have b: "\<exists>s'. call_data (openai_pump test_env ''call-1'' [said_A, said_B] (test_world new_caller))
            ''call-1'' = Some s' \<and>
          map_option ar_text
            (find (\<lambda>r. py_eq (ar_item_id r) (JStr ''resp_1'')) (assistant_responses s')) =
            Some (JStr ([] @ ''A'' @ ''B''))"
    by (rule said [THEN conjunct2, THEN conjunct1, rule_format,
          where ?r1.0 = "JObj [(''type'', JStr ''response.text.delta''),
                     (''item_id'', JStr ''resp_1''), (''delta'', JStr ''A'')]"
            and ?r2.0 = "JObj [(''type'', JStr ''response.text.delta''),
                     (''item_id'', JStr ''resp_1''), (''delta'', JStr ''B'')]"])
       (simp add: decodes_def test_env_def test_frame_defs py_get_def new_caller_def
          new_session_def)
  have c: "\<exists>s'. call_data (receive_from_openai test_env ''call-1'' heard_all (test_world new_caller))
            ''call-1'' = Some s' \<and>
          dict_get (transcriptions s') (JStr ''item_1'') =
            Some \<lparr>tr_text = JStr ''I am a Contractor'', tr_complete = True\<rparr>"
    by (rule heard [THEN conjunct2, THEN conjunct2, rule_format,
          where r = "JObj [(''type'', JStr ''conversation.item.input_audio_transcription.completed''),
                        (''item_id'', JStr ''item_1''),
                        (''transcript'', JStr ''I am a Contractor'')]"])
       (simp add: decodes_def test_env_def test_frame_defs py_get_def)
  from a b c show ?thesis by simp
qed

section \<open>The tool dispatcher\<close>

lemmas run = thn_def ret_def raise_def lift_def gets_def modify_def total_def time_time_def

lemma py_get_obj [simp]:
  "py_get (JObj kvs) k d = Inr (case map_of kvs k of None \<Rightarrow> d | Some v \<Rightarrow> v)"
  by (simp add: py_get_def split: option.splits)

lemma py_in_obj [simp]: "py_in k (JObj kvs) = Inr (map_of kvs k \<noteq> None)"
  by (simp add: py_in_def)

lemma py_get_Inr: "py_get r k d = Inr v \<Longrightarrow> \<exists>kvs. r = JObj kvs"
  by (cases r) (simp_all add: py_get_def)

lemma thn_openai_send_text [simp]:
  "openai_open w \<Longrightarrow>
   thn (openai_send (Text x)) f w = f () (w\<lparr>openai_sent := openai_sent w @ [x]\<rparr>)"
  by (simp add: thn_def openai_send_def)

lemma openai_send_text [simp]:
  "openai_open w \<Longrightarrow> openai_send (Text x) w = (Inr (), w\<lparr>openai_sent := openai_sent w @ [x]\<rparr>)"
  by (simp add: openai_send_def)

lemma profile_email_logs [simp]:
  "profile_email (add_function_call c s) e = profile_email s e"
  "profile_email (add_appointment a s) e = profile_email s e"
  "profile_email (s\<lparr>function_calls := fs\<rparr>) e = profile_email s e"
  "profile_email (s\<lparr>appointments := as\<rparr>) e = profile_email s e"
  by (simp_all add: profile_email_def add_function_call_def add_appointment_def
      cong: sum.case_cong if_cong)

text \<open>A decoded function-call frame goes to the dispatcher; a result that is not
  falsy is sent back, followed by the trigger with the instructions.\<close>

lemma function_call_event:
  assumes "decodes E message ''response.function_call_arguments.done'' response"
    and "py_get response ''name'' (JStr []) = Inr name"
    and "py_item response ''arguments'' = Inr (JStr arguments)"
    and "loads E arguments = Some args"
    and "py_get response ''item_id'' (JStr []) = Inr item_id"
    and "py_get response ''call_id'' (JStr []) = Inr call_id"
  shows "receive_from_openai_body E call_uuid message =
     thn (dispatch E call_uuid name args item_id) (\<lambda>(result, instructions).
       if truthy result
       then thn (openai_send (Text (dumps E (function_call_output E result item_id call_id)))) (\<lambda>_.
              openai_send (Text (dumps E (response_create instructions))))
       else ret ())"
  using assms
  by (simp add: decodes_def receive_event on_function_call_def loads_value_def)

text \<open>
  C1. A \<open>check_slot_availability\<close> call with proposed time \<open>t\<close>, dispatched while
  the call record exists and the AI-session socket is open. If the availability check
  returns a true value and the booking returns a dict, exactly one appointment record
  is appended (time \<open>t\<close>, the resolved email, the booking's result), and two messages
  are sent to the AI session: a \<open>conversation.item.create\<close> item of type
  \<open>function_call_output\<close> with the item and call ids of the request, whose output is
  the JSON text of \<open>{result: {is_available: true, proposed_time: t, booking_result:
  ...}}\<close>, then a \<open>response.create\<close> with the instructions for the outcome of the
  booking. If the check returns a false value, the appointment log is unchanged and
  the output sent is \<open>{result: {is_available: false, proposed_time: t}}\<close>, followed
  by the instructions to ask for another time.
\<close>

theorem check_slot_books_when_available:
  assumes "decodes E message ''response.function_call_arguments.done'' response"
    and "py_get response ''name'' (JStr []) = Inr (JStr ''check_slot_availability'')"
    and "py_item response ''arguments'' = Inr (JStr arguments)"
    and "loads E arguments = Some args"
    and "py_item args ''proposed_time'' = Inr t"
    and "py_get response ''item_id'' (JStr []) = Inr item_id"
    and "py_get response ''call_id'' (JStr []) = Inr call_id"
    and "is_slot_available E t = Inr availability"
    and "call_data w call_uuid = Some s"
    and "openai_open w"
  shows
    "(truthy availability \<longrightarrow>
        (\<forall>email booking.
           profile_email s (JStr ''customer@example.com'') = Inr email \<and>
           book_slot_handler E t email = Inr (JObj booking) \<longrightarrow>
           (\<exists>s'. call_data (receive_from_openai E call_uuid message w) call_uuid = Some s' \<and>
              appointments s' = appointments s @
                [\<lparr>ap_timestamp = clock E (Suc (ticks w)), ap_proposed_time = t,
                  ap_email = email, ap_result = JObj booking, ap_item_id = item_id\<rparr>]) \<and>
           openai_sent (receive_from_openai E call_uuid message w) = openai_sent w @
             [dumps E (JObj [(''type'', JStr ''conversation.item.create''),
                (''item'', JObj [(''id'', item_id),
                   (''type'', JStr ''function_call_output''),
                   (''call_id'', call_id),
                   (''output'', JStr (dumps E (JObj [(''result'',
                      JObj [(''is_available'', JBool True), (''proposed_time'', t),
                            (''booking_result'', JObj booking)])])))])]),
              dumps E (JObj [(''type'', JStr ''response.create''),
                (''response'', JObj [(''modalities'', JArr [JStr ''text'', JStr ''audio'']),
                   (''temperature'', JNum (8 / 10)),
                   (''instructions'', JStr
                      (case map_of booking ''error'' of
                         None \<Rightarrow>
                           ''Tell the user that the time ('' @ fstr E t @
                           '') was available and has been successfully booked. Confirm the appointment details.''
                       | Some err \<Rightarrow>
                           ''Tell the user that the time ('' @ fstr E t @
                           '') is available, but there was an error booking: '' @ fstr E err @
                           ''. Suggest trying again or choosing another time.''))])])]))
     \<and> (\<not> truthy availability \<longrightarrow>
        (\<exists>s'. call_data (receive_from_openai E call_uuid message w) call_uuid = Some s' \<and>
           appointments s' = appointments s) \<and>
        openai_sent (receive_from_openai E call_uuid message w) = openai_sent w @
          [dumps E (JObj [(''type'', JStr ''conversation.item.create''),
             (''item'', JObj [(''id'', item_id),
                (''type'', JStr ''function_call_output''),
                (''call_id'', call_id),
                (''output'', JStr (dumps E (JObj [(''result'',
                   JObj [(''is_available'', JBool False), (''proposed_time'', t)])])))])]),
           dumps E (JObj [(''type'', JStr ''response.create''),
             (''response'', JObj [(''modalities'', JArr [JStr ''text'', JStr ''audio'']),
                (''temperature'', JNum (8 / 10)),
                (''instructions'', JStr
                   (''Inform the user that the requested time ('' @ fstr E t @
                    '') is not available. Suggest they ask for another time.''))])])])"
  using assms(2-)
  by (auto simp: receive_from_openai_def function_call_event [OF assms(1)] dispatch_def
      check_slot_availability_def record_event_def resolve_email_def update_session_def
      add_function_call_def add_appointment_def function_call_output_def response_create_def
      booked_instructions_def booking_error_instructions_def unavailable_instructions_def
      Let_def run
      split: option.splits)

theorem check_slot_books_when_available_witness:
  "(\<exists>s'. call_data (receive_from_openai test_env ''call-1'' ''check free'' (test_world new_caller))
            ''call-1'' = Some s' \<and>
          appointments s' =
            [\<lparr>ap_timestamp = 1700000001, ap_proposed_time = JStr ''2024-05-15T14:30:00'',
              ap_email = JStr ''customer@example.com'',
              ap_result = JObj [(''htmlLink'', JStr ''https://calendar.example/e1''),
                                (''attendee'', JStr ''customer@example.com'')],
              ap_item_id = JStr ''item_9''\<rparr>])
   \<and> openai_sent (receive_from_openai test_env ''call-1'' ''check free'' (test_world new_caller)) =
       [test_dumps (JObj [(''type'', JStr ''conversation.item.create''),
          (''item'', JObj [(''id'', JStr ''item_9''),
             (''type'', JStr ''function_call_output''),
             (''call_id'', JStr ''call_9''),
             (''output'', JStr (test_dumps (JObj [(''result'',
                JObj [(''is_available'', JBool True),
                      (''proposed_time'', JStr ''2024-05-15T14:30:00''),
                      (''booking_result'',
                         JObj [(''htmlLink'', JStr ''https://calendar.example/e1''),
                               (''attendee'', JStr ''customer@example.com'')])])])))])]),
        test_dumps (JObj [(''type'', JStr ''response.create''),
          (''response'', JObj [(''modalities'', JArr [JStr ''text'', JStr ''audio'']),
             (''temperature'', JNum (8 / 10)),
             (''instructions'', JStr
                ''Tell the user that the time (2024-05-15T14:30:00) was available and has been successfully booked. Confirm the appointment details.'')])])]
   \<and> (\<exists>s'. call_data (receive_from_openai test_env ''call-1'' ''check taken'' (test_world new_caller))
            ''call-1'' = Some s' \<and> appointments s' = [])
   \<and> openai_sent (receive_from_openai test_env ''call-1'' ''check taken'' (test_world new_caller)) =
       [test_dumps (JObj [(''type'', JStr ''conversation.item.create''),
          (''item'', JObj [(''id'', JStr ''item_9''),
             (''type'', JStr ''function_call_output''),
             (''call_id'', JStr ''call_9''),
             (''output'', JStr (test_dumps (JObj [(''result'',
                JObj [(''is_available'', JBool False),
                      (''proposed_time'', JStr ''2024-05-16T09:00:00'')])])))])]),
        test_dumps (JObj [(''type'', JStr ''response.create''),
          (''response'', JObj [(''modalities'', JArr [JStr ''text'', JStr ''audio'']),
             (''temperature'', JNum (8 / 10)),
             (''instructions'', JStr
                ''Inform the user that the requested time (2024-05-16T09:00:00) is not available. Suggest they ask for another time.'')])])]"
proof -
  let ?w = "test_world new_caller"
  let ?booking = "[(''htmlLink'', JStr ''https://calendar.example/e1''),
                   (''attendee'', JStr ''customer@example.com'')]"
  note free = check_slot_books_when_available
      [where E = test_env and message = "''check free''" and call_uuid = "''call-1''"
         and w = ?w and t = "JStr free_time" and availability = "JBool True"
         and item_id = "JStr ''item_9''"
         and response = "call_frame ''check_slot_availability'' (time_arguments free_time)"
         and arguments = "time_arguments free_time"
         and args = "JObj [(''proposed_time'', JStr free_time)]"
         and call_id = "JStr ''call_9''" and s = new_caller,
       THEN conjunct1, rule_format, of "JStr ''customer@example.com''" ?booking]
  note taken = check_slot_books_when_available
      [where E = test_env and message = "''check taken''" and call_uuid = "''call-1''"
         and w = ?w and t = "JStr taken_time" and availability = "JBool False"
         and item_id = "JStr ''item_9''"
         and response = "call_frame ''check_slot_availability'' (time_arguments taken_time)"
         and arguments = "time_arguments taken_time"
         and args = "JObj [(''proposed_time'', JStr taken_time)]"
         and call_id = "JStr ''call_9''" and s = new_caller,
       THEN conjunct2, rule_format]
  have email: "profile_email new_caller (JStr ''customer@example.com'') =
                 Inr (JStr ''customer@example.com'')"
    by (simp add: profile_email_def new_caller_def new_session_def)
  have pre_free:
    "decodes test_env ''check free'' ''response.function_call_arguments.done''
       (call_frame ''check_slot_availability'' (time_arguments free_time))"
    "py_get (call_frame ''check_slot_availability'' (time_arguments free_time)) ''name'' (JStr []) =
       Inr (JStr ''check_slot_availability'')"
    "py_item (call_frame ''check_slot_availability'' (time_arguments free_time)) ''arguments'' =
       Inr (JStr (time_arguments free_time))"
    "loads test_env (time_arguments free_time) = Some (JObj [(''proposed_time'', JStr free_time)])"
    "py_item (JObj [(''proposed_time'', JStr free_time)]) ''proposed_time'' = Inr (JStr free_time)"
    "py_get (call_frame ''check_slot_availability'' (time_arguments free_time)) ''item_id'' (JStr []) =
       Inr (JStr ''item_9'')"
    "py_get (call_frame ''check_slot_availability'' (time_arguments free_time)) ''call_id'' (JStr []) =
       Inr (JStr ''call_9'')"
    "is_slot_available test_env (JStr free_time) = Inr (JBool True)"
    "call_data ?w ''call-1'' = Some new_caller"
    "openai_open ?w"
    "truthy (JBool True)"
    "book_slot_handler test_env (JStr free_time) (JStr ''customer@example.com'') = Inr (JObj ?booking)"
    by (simp_all add: decodes_def test_env_def test_frame_defs test_world_def py_item_def)
  have pre_taken:
    "decodes test_env ''check taken'' ''response.function_call_arguments.done''
       (call_frame ''check_slot_availability'' (time_arguments taken_time))"
    "py_get (call_frame ''check_slot_availability'' (time_arguments taken_time)) ''name'' (JStr []) =
       Inr (JStr ''check_slot_availability'')"
    "py_item (call_frame ''check_slot_availability'' (time_arguments taken_time)) ''arguments'' =
       Inr (JStr (time_arguments taken_time))"
    "loads test_env (time_arguments taken_time) = Some (JObj [(''proposed_time'', JStr taken_time)])"
    "py_item (JObj [(''proposed_time'', JStr taken_time)]) ''proposed_time'' = Inr (JStr taken_time)"
    "py_get (call_frame ''check_slot_availability'' (time_arguments taken_time)) ''item_id'' (JStr []) =
       Inr (JStr ''item_9'')"
    "py_get (call_frame ''check_slot_availability'' (time_arguments taken_time)) ''call_id'' (JStr []) =
       Inr (JStr ''call_9'')"
    "is_slot_available test_env (JStr taken_time) = Inr (JBool False)"
    "\<not> truthy (JBool False)"
    by (simp_all add: decodes_def test_env_def test_frame_defs test_world_def py_item_def)
  from free [OF pre_free(1-11)] email pre_free(12)
  have 1: "(\<exists>s'. call_data (receive_from_openai test_env ''call-1'' ''check free'' ?w) ''call-1'' =
                   Some s' \<and>
              appointments s' =
                [\<lparr>ap_timestamp = 1700000001, ap_proposed_time = JStr ''2024-05-15T14:30:00'',
                  ap_email = JStr ''customer@example.com'', ap_result = JObj ?booking,
                  ap_item_id = JStr ''item_9''\<rparr>]) \<and>
     openai_sent (receive_from_openai test_env ''call-1'' ''check free'' ?w) =
       [test_dumps (JObj [(''type'', JStr ''conversation.item.create''),
          (''item'', JObj [(''id'', JStr ''item_9''),
             (''type'', JStr ''function_call_output''),
             (''call_id'', JStr ''call_9''),
             (''output'', JStr (test_dumps (JObj [(''result'',
                JObj [(''is_available'', JBool True),
                      (''proposed_time'', JStr ''2024-05-15T14:30:00''),
                      (''booking_result'', JObj ?booking)])])))])]),
        test_dumps (JObj [(''type'', JStr ''response.create''),
          (''response'', JObj [(''modalities'', JArr [JStr ''text'', JStr ''audio'']),
             (''temperature'', JNum (8 / 10)),
             (''instructions'', JStr
                ''Tell the user that the time (2024-05-15T14:30:00) was available and has been successfully booked. Confirm the appointment details.'')])])]"
    by (simp add: test_env_def test_world_def new_caller_def new_session_def fstr_def
        free_time_def del: test_dumps.simps)
  from taken [OF pre_taken(1-8) pre_free(9,10) pre_taken(9)]
  have 2:
    "(\<exists>s'. call_data (receive_from_openai test_env ''call-1'' ''check taken'' ?w) ''call-1'' =
              Some s' \<and> appointments s' = []) \<and>
     openai_sent (receive_from_openai test_env ''call-1'' ''check taken'' ?w) =
       [test_dumps (JObj [(''type'', JStr ''conversation.item.create''),
          (''item'', JObj [(''id'', JStr ''item_9''),
             (''type'', JStr ''function_call_output''),
             (''call_id'', JStr ''call_9''),
             (''output'', JStr (test_dumps (JObj [(''result'',
                JObj [(''is_available'', JBool False),
                      (''proposed_time'', JStr ''2024-05-16T09:00:00'')])])))])]),
        test_dumps (JObj [(''type'', JStr ''response.create''),
          (''response'', JObj [(''modalities'', JArr [JStr ''text'', JStr ''audio'']),
             (''temperature'', JNum (8 / 10)),
             (''instructions'', JStr
                ''Inform the user that the requested time (2024-05-16T09:00:00) is not available. Suggest they ask for another time.'')])])]"
    by (simp add: test_env_def test_world_def new_caller_def new_session_def fstr_def
        taken_time_def del: test_dumps.simps)
  from 1 2 show ?thesis by simp
qed

text \<open>What the outcome of a dispatch leads to: two messages for a result that is not
  falsy, none otherwise; and no message for a name that is not recognised.\<close>

lemma dispatch_answered:
  assumes "decodes E message ''response.function_call_arguments.done'' response"
    and "py_get response ''name'' (JStr []) = Inr name"
    and "py_item response ''arguments'' = Inr (JStr arguments)"
    and "loads E arguments = Some args"
    and "py_get response ''item_id'' (JStr []) = Inr item_id"
    and "py_get response ''call_id'' (JStr []) = Inr call_id"
    and "dispatch E call_uuid name args item_id w = (Inr (result, instructions), w1)"
    and "openai_open w1"
  shows "receive_from_openai E call_uuid message w =
           (if truthy result
            then w1\<lparr>openai_sent := openai_sent w1 @
                   [dumps E (function_call_output E result item_id call_id),
                    dumps E (response_create instructions)]\<rparr>
            else w1)"
  using assms(7,8)
  by (simp add: receive_from_openai_def function_call_event [OF assms(1-6)] thn_def)

lemma unrecognized_name_ignored:
  assumes "decodes E message ''response.function_call_arguments.done'' response"
    and "py_get response ''name'' (JStr []) = Inr (JStr name)"
    and "name \<notin> {''search_product_database'', ''get_available_slots'',
                   ''check_slot_availability'', ''book_appointment''}"
    and "py_item response ''arguments'' = Inr (JStr arguments)"
    and "loads E arguments = Some args"
  shows "receive_from_openai E call_uuid message w = w"
proof -
  from assms(1) obtain kvs where "response = JObj kvs"
    by (auto simp: decodes_def dest: py_get_Inr)
  with assms show ?thesis
    by (simp add: receive_from_openai_def decodes_def receive_event on_function_call_def
        loads_value_def dispatch_def run)
qed

text \<open>
  C5. A \<open>get_available_slots\<close> call whose slot list comes back empty is a recognised
  function whose dispatch completes, yet the guard \<open>if result:\<close> takes the empty
  list for no result: nothing is sent to the AI session and the world is unchanged.
\<close>

theorem empty_slot_list_is_not_answered:
  assumes "decodes E message ''response.function_call_arguments.done'' response"
    and "py_get response ''name'' (JStr []) = Inr (JStr ''get_available_slots'')"
    and "py_item response ''arguments'' = Inr (JStr arguments)"
    and "loads E arguments = Some args"
    and "get_available_slots_handler E = Inr slots"
    and "\<not> truthy slots"
  shows "receive_from_openai E call_uuid message w = w"
proof -
  from assms(1) obtain kvs where "response = JObj kvs"
    by (auto simp: decodes_def dest: py_get_Inr)
  with assms show ?thesis
    by (simp add: receive_from_openai_def decodes_def receive_event on_function_call_def
        loads_value_def dispatch_def run)
qed

theorem empty_slot_list_is_not_answered_witness:
  "get_available_slots_handler test_env = Inr (JArr []) \<and>
   openai_sent (receive_from_openai test_env ''call-1'' ''list slots'' (test_world new_caller)) = []"
  using empty_slot_list_is_not_answered [of test_env "''list slots''"
      "call_frame ''get_available_slots'' ''{}''" "''{}''" "JObj []" "JArr []"
      "''call-1''" "test_world new_caller"]
  by (simp add: decodes_def test_env_def test_frame_defs test_world_def py_item_def)

section \<open>The email of a booking\<close>

lemma py_eq_JStr [simp]: "py_eq st (JStr x) = (st = JStr x)"
  by (cases st) auto

lemma py_item_obj [simp]:
  "py_item (JObj kvs) k = (case map_of kvs k of None \<Rightarrow> Inl (KeyError k) | Some v \<Rightarrow> Inr v)"
  by (simp add: py_item_def)

lemma email_incomplete_cases:
  "email_incomplete JNull" "email_incomplete (JStr [])" "email_incomplete (JStr (''pending_'' @ x))"
  by (simp_all add: email_incomplete_def)

lemma lookup_incomplete:
  assumes "rows_of phone w = row # rest"
    and "py_get row ''email'' JNull = Inr e" and "email_incomplete e"
  shows "py_item (fst (get_user_details E phone w)) ''status'' =
           Inr (JStr (if faults w \<noteq> [] \<and> hd (faults w) then ''error'' else ''incomplete''))"
  using assms
  by (auto simp: get_user_details_def get_user_details_body_def select_all_def execute_def
      status_object_def run split: list.splits)

lemma profile_email_given:
  "user_details s = JNull \<or> (\<exists>st msg row. user_details s = status_object st msg row \<and> st \<noteq> ''success'')
   \<Longrightarrow> profile_email s given = Inr given"
  by (auto simp: profile_email_def status_object_def)

lemma profile_email_stored:
  "profile_email s given = Inr e \<Longrightarrow> e \<noteq> given \<Longrightarrow>
   user_exists s \<and> py_item (user_details s) ''status'' = Inr (JStr ''success'') \<and>
   (\<exists>d. py_item (user_details s) ''data'' = Inr d \<and> py_item d ''email'' = Inr e)"
  by (auto simp: profile_email_def split: if_splits sum.splits)

lemma check_slot_appointment:
  assumes "decodes E message ''response.function_call_arguments.done'' response"
    and "py_get response ''name'' (JStr []) = Inr (JStr ''check_slot_availability'')"
    and "py_item response ''arguments'' = Inr (JStr arguments)"
    and "loads E arguments = Some args"
    and "py_item args ''proposed_time'' = Inr t"
    and "py_get response ''item_id'' (JStr []) = Inr item_id"
    and "is_slot_available E t = Inr availability" and "truthy availability"
    and "call_data w call_uuid = Some s"
    and "profile_email s (JStr ''customer@example.com'') = Inr email"
    and "book_slot_handler E t email = Inr (JObj booking)"
  shows "\<exists>s'. call_data (receive_from_openai E call_uuid message w) call_uuid = Some s' \<and>
           appointments s' = appointments s @
             [\<lparr>ap_timestamp = clock E (Suc (ticks w)), ap_proposed_time = t,
               ap_email = email, ap_result = JObj booking, ap_item_id = item_id\<rparr>]"
proof -
  from assms(1) obtain kvs where "response = JObj kvs"
    by (auto simp: decodes_def dest: py_get_Inr)
  with assms show ?thesis
    by (auto simp: receive_from_openai_def decodes_def receive_event on_function_call_def
        loads_value_def dispatch_def check_slot_availability_def record_event_def
        resolve_email_def update_session_def add_function_call_def add_appointment_def
        openai_send_def log_error_def Let_def run)
qed

lemma book_appointment_appointment:
  assumes "decodes E message ''response.function_call_arguments.done'' response"
    and "py_get response ''name'' (JStr []) = Inr (JStr ''book_appointment'')"
    and "py_item response ''arguments'' = Inr (JStr arguments)"
    and "loads E arguments = Some args"
    and "py_item args ''proposed_time'' = Inr t"
    and "py_get args ''email'' (JStr ''customer@example.com'') = Inr given"
    and "py_get response ''item_id'' (JStr []) = Inr item_id"
    and "call_data w call_uuid = Some s"
    and "profile_email s given = Inr email"
    and "book_slot_handler E t email = Inr (JObj booking)"
  shows "\<exists>s'. call_data (receive_from_openai E call_uuid message w) call_uuid = Some s' \<and>
           appointments s' = appointments s @
             [\<lparr>ap_timestamp = clock E (ticks w), ap_proposed_time = t,
               ap_email = email, ap_result = JObj booking, ap_item_id = item_id\<rparr>]"
proof -
  from assms(1) obtain kvs where "response = JObj kvs"
    by (auto simp: decodes_def dest: py_get_Inr)
  with assms show ?thesis
    by (auto simp: receive_from_openai_def decodes_def receive_event on_function_call_def
        loads_value_def dispatch_def book_appointment_def record_event_def
        resolve_email_def update_session_def add_appointment_def
        openai_send_def log_error_def Let_def run)
qed

text \<open>
  C10, as amended. A booking takes the stored profile email only from a caller whose
  directory lookup returned status \<open>success\<close>. The lookup of a record whose email
  is missing, empty or begins with \<open>pending_\<close> returns \<open>incomplete\<close>
  (\<open>error\<close> if the request fails), never \<open>success\<close>. For a caller without a
  successful lookup, a booking through \<open>check_slot_availability\<close> uses
  \<open>customer@example.com\<close>, and a booking through \<open>book_appointment\<close> uses the
  email argument of the call, which is \<open>customer@example.com\<close> only when the
  argument is absent.
\<close>

theorem booking_email_policy:
  assumes "call_data w call_uuid = Some s"
    and "decodes E message ''response.function_call_arguments.done'' response"
    and "py_item response ''arguments'' = Inr (JStr arguments)"
    and "loads E arguments = Some args"
    and "py_item args ''proposed_time'' = Inr t"
    and "py_get response ''item_id'' (JStr []) = Inr item_id"
  shows
    "(\<forall>given e. profile_email s given = Inr e \<and> e \<noteq> given \<longrightarrow>
        user_exists s \<and> py_item (user_details s) ''status'' = Inr (JStr ''success''))
     \<and> (\<forall>phone v row rest e x.
          rows_of phone v = row # rest \<and> py_get row ''email'' JNull = Inr e \<and>
          (e = JNull \<or> e = JStr [] \<or> e = JStr (''pending_'' @ x)) \<longrightarrow>
          py_item (fst (get_user_details E phone v)) ''status'' =
            Inr (JStr (if faults v \<noteq> [] \<and> hd (faults v) then ''error'' else ''incomplete'')))
     \<and> (user_details s = JNull \<or>
         (\<exists>st msg row. user_details s = status_object st msg row \<and> st \<noteq> ''success'') \<longrightarrow>
        (\<forall>availability booking.
           py_get response ''name'' (JStr []) = Inr (JStr ''check_slot_availability'') \<and>
           is_slot_available E t = Inr availability \<and> truthy availability \<and>
           book_slot_handler E t (JStr ''customer@example.com'') = Inr (JObj booking) \<longrightarrow>
           (\<exists>s'. call_data (receive_from_openai E call_uuid message w) call_uuid = Some s' \<and>
              appointments s' = appointments s @
                [\<lparr>ap_timestamp = clock E (Suc (ticks w)), ap_proposed_time = t,
                  ap_email = JStr ''customer@example.com'', ap_result = JObj booking,
                  ap_item_id = item_id\<rparr>]))
        \<and> (\<forall>given booking.
           py_get response ''name'' (JStr []) = Inr (JStr ''book_appointment'') \<and>
           py_get args ''email'' (JStr ''customer@example.com'') = Inr given \<and>
           book_slot_handler E t given = Inr (JObj booking) \<longrightarrow>
           (\<exists>s'. call_data (receive_from_openai E call_uuid message w) call_uuid = Some s' \<and>
              appointments s' = appointments s @
                [\<lparr>ap_timestamp = clock E (ticks w), ap_proposed_time = t,
                  ap_email = given, ap_result = JObj booking, ap_item_id = item_id\<rparr>])))"
proof (intro conjI allI impI)
  fix given e
  assume "profile_email s given = Inr e \<and> e \<noteq> given"
  then show "user_exists s" and "py_item (user_details s) ''status'' = Inr (JStr ''success'')"
    using profile_email_stored [of s given e] by simp_all
next
  fix phone v row rest e x
  assume h: "rows_of phone v = row # rest \<and> py_get row ''email'' JNull = Inr e \<and>
          (e = JNull \<or> e = JStr [] \<or> e = JStr (''pending_'' @ x))"
  then have "email_incomplete e" using email_incomplete_cases by auto
  with h show "py_item (fst (get_user_details E phone v)) ''status'' =
            Inr (JStr (if faults v \<noteq> [] \<and> hd (faults v) then ''error'' else ''incomplete''))"
    by (intro lookup_incomplete [of phone v row rest e]) simp_all
next
  fix availability booking
  assume u: "user_details s = JNull \<or>
         (\<exists>st msg row. user_details s = status_object st msg row \<and> st \<noteq> ''success'')"
    and h: "py_get response ''name'' (JStr []) = Inr (JStr ''check_slot_availability'') \<and>
           is_slot_available E t = Inr availability \<and> truthy availability \<and>
           book_slot_handler E t (JStr ''customer@example.com'') = Inr (JObj booking)"
  from u have "profile_email s (JStr ''customer@example.com'') = Inr (JStr ''customer@example.com'')"
    by (rule profile_email_given)
  with assms h show "\<exists>s'. call_data (receive_from_openai E call_uuid message w) call_uuid = Some s' \<and>
              appointments s' = appointments s @
                [\<lparr>ap_timestamp = clock E (Suc (ticks w)), ap_proposed_time = t,
                  ap_email = JStr ''customer@example.com'', ap_result = JObj booking,
                  ap_item_id = item_id\<rparr>]"
    by (intro check_slot_appointment [where availability = availability and args = args
          and arguments = arguments and response = response]) simp_all
next
  fix given booking
  assume u: "user_details s = JNull \<or>
         (\<exists>st msg row. user_details s = status_object st msg row \<and> st \<noteq> ''success'')"
    and h: "py_get response ''name'' (JStr []) = Inr (JStr ''book_appointment'') \<and>
           py_get args ''email'' (JStr ''customer@example.com'') = Inr given \<and>
           book_slot_handler E t given = Inr (JObj booking)"
  from u have "profile_email s given = Inr given"
    by (rule profile_email_given)
  with assms h show "\<exists>s'. call_data (receive_from_openai E call_uuid message w) call_uuid = Some s' \<and>
              appointments s' = appointments s @
                [\<lparr>ap_timestamp = clock E (ticks w), ap_proposed_time = t,
                  ap_email = given, ap_result = JObj booking, ap_item_id = item_id\<rparr>]"
    by (intro book_appointment_appointment [where given = given and args = args
          and arguments = arguments and response = response]) simp_all
qed

theorem booking_email_policy_witness:
  "py_item (fst (get_user_details test_env ''+15550100'' (idle_world [pending_ada]))) ''status'' =
     Inr (JStr ''incomplete'')
   \<and> (\<exists>s'. call_data (receive_from_openai test_env ''call-1'' ''check free''
              (test_world incomplete_caller)) ''call-1'' = Some s' \<and>
           map ap_email (appointments s') = [JStr ''customer@example.com''])
   \<and> (\<exists>s'. call_data (receive_from_openai test_env ''call-1'' ''book free''
              (test_world incomplete_caller)) ''call-1'' = Some s' \<and>
           map ap_email (appointments s') = [JStr ''ada@example.org''])"
proof -
  let ?w = "test_world incomplete_caller"
  have s: "call_data ?w ''call-1'' = Some incomplete_caller"
    by (simp add: test_world_def)
  have u: "user_details incomplete_caller = JNull \<or>
           (\<exists>st msg row. user_details incomplete_caller = status_object st msg row \<and>
              st \<noteq> ''success'')"
    by (auto simp: incomplete_caller_def known_caller_def new_session_def)
  have check: "decodes test_env ''check free'' ''response.function_call_arguments.done''
       (call_frame ''check_slot_availability'' (time_arguments free_time))"
    by (simp add: decodes_def test_env_def test_frame_defs)
  have book: "decodes test_env ''book free'' ''response.function_call_arguments.done''
       (call_frame ''book_appointment'' (time_email_arguments free_time ''ada@example.org''))"
    by (simp add: decodes_def test_env_def test_frame_defs)
  note c = booking_email_policy [OF s check, of "time_arguments free_time"
      "JObj [(''proposed_time'', JStr free_time)]" "JStr free_time" "JStr ''item_9''"]
  note b = booking_email_policy [OF s book, of "time_email_arguments free_time ''ada@example.org''"
      "JObj [(''proposed_time'', JStr free_time), (''email'', JStr ''ada@example.org'')]"
      "JStr free_time" "JStr ''item_9''"]
  have 1: "py_item (fst (get_user_details test_env ''+15550100'' (idle_world [pending_ada])))
             ''status'' = Inr (JStr ''incomplete'')"
    using c [THEN conjunct2, THEN conjunct1, rule_format,
        of "''+15550100''" "idle_world [pending_ada]" pending_ada "[]" "JStr ''pending_17''" "''17''"]
    by (simp add: test_env_def test_frame_defs idle_world_def rows_of_def pending_ada_def)
  have 2: "\<exists>s'. call_data (receive_from_openai test_env ''call-1'' ''check free'' ?w) ''call-1'' =
             Some s' \<and>
           appointments s' = appointments incomplete_caller @
             [\<lparr>ap_timestamp = clock test_env (Suc (ticks ?w)), ap_proposed_time = JStr free_time,
               ap_email = JStr ''customer@example.com'',
               ap_result = JObj [(''htmlLink'', JStr ''https://calendar.example/e1''),
                                 (''attendee'', JStr ''customer@example.com'')],
               ap_item_id = JStr ''item_9''\<rparr>]"
    using c [THEN conjunct2, THEN conjunct2, rule_format, OF _ _ _ _ u, THEN conjunct1, rule_format,
        of "JBool True"]
    by (simp add: test_env_def test_frame_defs)
  have 3: "\<exists>s'. call_data (receive_from_openai test_env ''call-1'' ''book free'' ?w) ''call-1'' =
             Some s' \<and>
           appointments s' = appointments incomplete_caller @
             [\<lparr>ap_timestamp = clock test_env (ticks ?w), ap_proposed_time = JStr free_time,
               ap_email = JStr ''ada@example.org'',
               ap_result = JObj [(''htmlLink'', JStr ''https://calendar.example/e1''),
                                 (''attendee'', JStr ''ada@example.org'')],
               ap_item_id = JStr ''item_9''\<rparr>]"
    using b [THEN conjunct2, THEN conjunct2, rule_format, OF _ _ _ _ u, THEN conjunct2, rule_format,
        of "JStr ''ada@example.org''"]
    by (simp add: test_env_def test_frame_defs)
  from 1 2 3 show ?thesis
    by (auto simp: incomplete_caller_def known_caller_def new_session_def)
qed

text \<open>
  C10 as stated fails for \<open>book_appointment\<close>: the caller's record has the email
  \<open>pending_17\<close>, the lookup at the start of the call returns \<open>incomplete\<close>, and
  the booking is made with the email argument \<open>ada@example.org\<close>, not with
  \<open>customer@example.com\<close>.
\<close>

theorem incomplete_caller_books_with_given_email:
  "map_option user_details (call_data pending_call ''call-1'') =
     Some (status_object ''incomplete''
       ''Registration incomplete. Please fill up the registration form.'' pending_ada)
   \<and> map_option (map ap_email \<circ> appointments)
        (call_data (receive_from_openai test_env ''call-1'' ''book free'' pending_call) ''call-1'') =
       Some [JStr ''ada@example.org'']"
  by (simp add: pending_call_def home_def home_body_def does_number_exist_def
      get_user_details_def get_user_details_body_def select_phone_number_def select_all_def
      execute_def rows_of_def idle_world_def pending_ada_def email_incomplete_def
      status_object_def new_session_def
      test_env_def test_frame_defs receive_from_openai_def receive_from_openai_body_def
      on_function_call_def loads_value_def dispatch_def book_appointment_def record_event_def
      resolve_email_def profile_email_def update_session_def add_appointment_def
      openai_send_def Let_def run)

section \<open>Post-call processing and the end of a call\<close>

lemmas post_call_defs =
  after_call_hangup_def after_call_hangup_body_def drop_session_def delete_session_def
  try_deliver_def deliver_def generate_inquiry_invoice_def upload_text_to_pdf_and_get_short_url_def
  send_templated_message_def send_simple_whatsapp_def emit_def log_error_def

text \<open>What one run of \<open>after_call_hangup\<close> does to a call that has a record: the
  record is gone, one deletion is traced, at most one summarisation and at most one
  delivery attempt are made, and no other call is touched.\<close>

lemma after_call_hangup_present:
  assumes "call_data w cid = Some s"
  shows "call_data (after_call_hangup E cid w) = (call_data w)(cid := None)"
    and "count_list (trace (after_call_hangup E cid w)) (Deleted cid) =
           count_list (trace w) (Deleted cid) + 1"
    and "length (filter (is_summary cid) (trace (after_call_hangup E cid w))) \<le>
           length (filter (is_summary cid) (trace w)) + 1"
    and "length (filter is_delivery (trace (after_call_hangup E cid w))) \<le>
           length (filter is_delivery (trace w)) + 1"
  using assms
  by (auto simp: post_call_defs is_summary_def is_delivery_def run
      split: sum.splits option.splits prod.splits)

lemma after_call_hangup_absent:
  "call_data w cid = None \<Longrightarrow> after_call_hangup E cid w = w"
  by (simp add: after_call_hangup_def)

text \<open>
  C8. Post-call processing of a call whose record has no transcription fragment, no
  assistant text and no tool call only deletes the record: no summarisation, no
  delivery, nothing logged. When the rendering of the transcript raises, the error is
  logged and the record is deleted; when the template message raises, the error is
  logged by the messaging function and again by post-call processing, and the record
  is deleted. For any record, and whatever the transcript rendering, the language
  model, the upload and the messaging client do, the record is gone afterwards, was
  deleted once, and no other record is touched.
\<close>

theorem post_call_cleanup_guaranteed:
  assumes "call_data w call_uuid = Some s"
  shows "(transcriptions s = [] \<and> function_calls s = [] \<and> assistant_responses s = [] \<longrightarrow>
            after_call_hangup E call_uuid w =
              w\<lparr>call_data := (call_data w)(call_uuid := None),
                trace := trace w @ [Deleted call_uuid]\<rparr>)
         \<and> (\<not> (transcriptions s = [] \<and> function_calls s = [] \<and> assistant_responses s = []) \<longrightarrow>
              (\<forall>e. render_transcript E s (ticks w) = Inl e \<longrightarrow>
                 after_call_hangup E call_uuid w =
                   w\<lparr>call_data := (call_data w)(call_uuid := None),
                     ticks := ticks w + length (transcriptions s),
                     logged := logged w @ [Caught e],
                     trace := trace w @ [Deleted call_uuid]\<rparr>) \<and>
              (\<forall>transcript invoice url e.
                 render_transcript E s (ticks w) = Inr transcript \<and>
                 invoice_model E transcript = Inr invoice \<and>
                 caller_number s \<noteq> [] \<and> caller_number s \<noteq> ''unknown'' \<and>
                 pdf_upload E invoice = Inr url \<and> truthy url \<and>
                 template_request E (caller_number s) url (caller_number s) = Some e \<longrightarrow>
                 after_call_hangup E call_uuid w =
                   w\<lparr>call_data := (call_data w)(call_uuid := None),
                     ticks := ticks w + length (transcriptions s),
                     logged := logged w @ [Caught e, Caught e],
                     trace := trace w @ [Summarized call_uuid transcript,
                                         SentTemplate (caller_number s) url,
                                         Deleted call_uuid]\<rparr>))
         \<and> call_data (after_call_hangup E call_uuid w) = (call_data w)(call_uuid := None)
         \<and> count_list (trace (after_call_hangup E call_uuid w)) (Deleted call_uuid) =
             count_list (trace w) (Deleted call_uuid) + 1"
proof -
  have "transcriptions s = [] \<and> function_calls s = [] \<and> assistant_responses s = [] \<longrightarrow>
          after_call_hangup E call_uuid w =
            w\<lparr>call_data := (call_data w)(call_uuid := None),
              trace := trace w @ [Deleted call_uuid]\<rparr>"
    using assms by (simp add: post_call_defs)
  moreover have
    "\<not> (transcriptions s = [] \<and> function_calls s = [] \<and> assistant_responses s = []) \<longrightarrow>
       (\<forall>e. render_transcript E s (ticks w) = Inl e \<longrightarrow>
          after_call_hangup E call_uuid w =
            w\<lparr>call_data := (call_data w)(call_uuid := None),
              ticks := ticks w + length (transcriptions s),
              logged := logged w @ [Caught e],
              trace := trace w @ [Deleted call_uuid]\<rparr>)"
    using assms by (auto simp: post_call_defs run)
  moreover have
    "\<not> (transcriptions s = [] \<and> function_calls s = [] \<and> assistant_responses s = []) \<longrightarrow>
       (\<forall>transcript invoice url e.
          render_transcript E s (ticks w) = Inr transcript \<and>
          invoice_model E transcript = Inr invoice \<and>
          caller_number s \<noteq> [] \<and> caller_number s \<noteq> ''unknown'' \<and>
          pdf_upload E invoice = Inr url \<and> truthy url \<and>
          template_request E (caller_number s) url (caller_number s) = Some e \<longrightarrow>
          after_call_hangup E call_uuid w =
            w\<lparr>call_data := (call_data w)(call_uuid := None),
              ticks := ticks w + length (transcriptions s),
              logged := logged w @ [Caught e, Caught e],
              trace := trace w @ [Summarized call_uuid transcript,
                                  SentTemplate (caller_number s) url,
                                  Deleted call_uuid]\<rparr>)"
    using assms by (auto simp: post_call_defs run)
  moreover note after_call_hangup_present(1,2) [OF assms, of E]
  ultimately show ?thesis by blast
qed

theorem post_call_cleanup_guaranteed_witness:
  "after_call_hangup test_env ''call-1'' (test_world new_caller) =
     (test_world new_caller)\<lparr>call_data := Map.empty, trace := [Deleted ''call-1'']\<rparr>
   \<and> render_transcript no_transcript_env talked_caller 0 = Inl TypeError
   \<and> after_call_hangup no_transcript_env ''call-1'' (test_world talked_caller) =
       (test_world talked_caller)\<lparr>call_data := Map.empty, ticks := 1,
          logged := [Caught TypeError], trace := [Deleted ''call-1'']\<rparr>
   \<and> template_request refusing_env ''+15550100'' (JStr ''https://cleanuri.com/abc'') ''+15550100'' =
       Some (ExternalError ''plivo'')
   \<and> after_call_hangup refusing_env ''call-1'' (test_world talked_caller) =
       (test_world talked_caller)\<lparr>call_data := Map.empty, ticks := 1,
          logged := [Caught (ExternalError ''plivo''), Caught (ExternalError ''plivo'')],
          trace := [Summarized ''call-1'' ''CALL TRANSCRIPT & CONVERSATION'',
                    SentTemplate ''+15550100'' (JStr ''https://cleanuri.com/abc''),
                    Deleted ''call-1'']\<rparr>
   \<and> call_data (after_call_hangup failing_env ''call-1'' (test_world talked_caller)) = Map.empty
   \<and> count_list (trace (after_call_hangup failing_env ''call-1'' (test_world talked_caller)))
        (Deleted ''call-1'') = 1"
proof -
  have a: "call_data (test_world new_caller) ''call-1'' = Some new_caller"
    and b: "call_data (test_world talked_caller) ''call-1'' = Some talked_caller"
    by (simp_all add: test_world_def)
  from post_call_cleanup_guaranteed [OF a, of test_env]
    post_call_cleanup_guaranteed [OF b, of no_transcript_env]
    post_call_cleanup_guaranteed [OF b, of refusing_env]
    post_call_cleanup_guaranteed [OF b, of failing_env]
  show ?thesis
    by (simp add: test_world_def new_caller_def new_session_def talked_caller_def
        no_transcript_env_def refusing_env_def failing_env_def test_env_def)
qed

section \<open>The triggers of post-call processing\<close>

lemma stays_refl: "stays cid w w"
  by (simp add: stays_def)

lemma stays_stays: "stays cid a b \<Longrightarrow> stays cid b c \<Longrightarrow> stays cid a c"
  by (simp add: stays_def)

lemma stays_ends: "stays cid a b \<Longrightarrow> ends cid b c \<Longrightarrow> ends cid a c"
  by (simp add: stays_def ends_def)

lemma ends_stays: "ends cid a b \<Longrightarrow> stays cid b c \<Longrightarrow> ends cid a c"
  by (simp add: stays_def ends_def)

lemma ends_ends: "ends cid a b \<Longrightarrow> ends cid b c \<Longrightarrow> False"
  by (simp add: ends_def)

lemma stays_same:
  "call_data w' = call_data w \<Longrightarrow> trace w' = trace w \<Longrightarrow> stays cid w w'"
  by (simp add: stays_def)

lemma filter_effects:
  assumes "filter (\<lambda>x. \<not> is_registration x) xs = filter (\<lambda>x. \<not> is_registration x) ys"
    and "\<And>x. P x \<Longrightarrow> \<not> is_registration x"
  shows "filter P xs = filter P ys"
proof -
  have "filter P zs = filter P (filter (\<lambda>x. \<not> is_registration x) zs)" for zs
    using assms(2) by (auto simp: filter_filter intro: filter_cong)
  with assms(1) show ?thesis by metis
qed

lemma evolves_stays:
  assumes "evolves cid w w'"
  shows "stays cid w w'"
proof -
  from assms have t: "filter (\<lambda>x. \<not> is_registration x) (trace w') =
      filter (\<lambda>x. \<not> is_registration x) (trace w)"
    by (simp add: evolves_def)
  have "filter (is_summary cid) (trace w') = filter (is_summary cid) (trace w)"
    by (rule filter_effects [OF t]) (simp add: is_summary_def is_registration_def split: effect.splits)
  moreover have "filter is_delivery (trace w') = filter is_delivery (trace w)"
    by (rule filter_effects [OF t]) (simp add: is_delivery_def is_registration_def split: effect.splits)
  moreover have "filter ((=) (Deleted cid)) (trace w') = filter ((=) (Deleted cid)) (trace w)"
    by (rule filter_effects [OF t]) (auto simp: is_registration_def)
  moreover from assms have "(call_data w' cid = None) = (call_data w cid = None)"
    by (auto simp: evolves_def split: option.splits)
  ultimately show ?thesis
    by (simp add: stays_def count_list_eq_length_filter)
qed

text \<open>\<open>after_call_hangup\<close>, whoever calls it: it ends a call that has a record
  and does nothing to one that has none.\<close>

lemma after_call_hangup_step:
  "(call_data w cid \<noteq> None \<longrightarrow> ends cid w (after_call_hangup E cid w)) \<and>
   (call_data w cid = None \<longrightarrow> after_call_hangup E cid w = w)"
  using after_call_hangup_present [of w cid _ E] after_call_hangup_absent [of w cid E]
  by (auto simp: ends_def)

lemma ends_or_stays_after:
  assumes "call_data w1 = call_data w" and "trace w1 = trace w"
    and "call_data w' = call_data (after_call_hangup E cid w1)"
    and "trace w' = trace (after_call_hangup E cid w1)"
  shows "(call_data w cid \<noteq> None \<longrightarrow> ends cid w w') \<and> (call_data w cid = None \<longrightarrow> stays cid w w')"
  using after_call_hangup_step [of w1 cid E] assms
  by (auto simp: ends_def stays_def)

lemma close_openai_same [simp]:
  "call_data (close_openai w) = call_data w" "trace (close_openai w) = trace w"
  by (simp_all add: close_openai_def)

lemma log_error_same [simp]:
  "call_data (log_error l w) = call_data w" "trace (log_error l w) = trace w"
  by (simp_all add: log_error_def)

lemma plivo_except_step:
  "(call_data w cid \<noteq> None \<longrightarrow> ends cid w (plivo_except E cid e w)) \<and>
   (call_data w cid = None \<longrightarrow> stays cid w (plivo_except E cid e w))"
proof (cases "e = ConnectionClosed")
  case True
  then show ?thesis
    using ends_or_stays_after [of w w "plivo_except E cid e w" E cid]
    by (simp add: plivo_except_def)
next
  case False
  then show ?thesis
    using ends_or_stays_after [of "log_error (Caught e) w" w "plivo_except E cid e w" E cid]
    by (simp add: plivo_except_def)
qed

lemma handle_message_except_step:
  "(call_data w cid \<noteq> None \<longrightarrow> ends cid w (handle_message_except E cid c w)) \<and>
   (call_data w cid = None \<longrightarrow> stays cid w (handle_message_except E cid c w))"
  using ends_or_stays_after [of "case c of Failed e \<Rightarrow> log_error (Caught e) w | _ \<Rightarrow> w" w
      "handle_message_except E cid c w" E cid]
  by (cases c) (simp_all add: handle_message_except_def)

text \<open>A frame of the telephony socket: the hangup frame runs post-call processing
  and ends the pump; any other frame leaves the records and the effects alone,
  whether it is handled or raises.\<close>

lemma plivo_frame_cases:
  assumes "plivo_frame E cid m w = (r, w')"
  shows "(r = Inr Break \<and> w' = close_openai (after_call_hangup E cid w)) \<or>
         (r \<noteq> Inr Break \<and> call_data w' = call_data w \<and> trace w' = trace w)"
  using assms
  by (auto simp: plivo_frame_def run openai_send_def
      split: option.splits sum.splits if_splits)

lemma plivo_frame_hangup:
  assumes "is_hangup E m"
  shows "plivo_frame E cid m w = (Inr Break, close_openai (after_call_hangup E cid w))"
  using assms
  by (auto simp: plivo_frame_def is_hangup_def run split: option.splits)

lemma receive_from_plivo_single:
  "(call_data w cid \<noteq> None \<longrightarrow>
      ends cid w (snd (receive_from_plivo E cid [i] w)) \<or>
      stays cid w (snd (receive_from_plivo E cid [i] w))) \<and>
   (call_data w cid = None \<longrightarrow> stays cid w (snd (receive_from_plivo E cid [i] w)))"
proof (cases i)
  case (Recv m)
  obtain r w' where f: "plivo_frame E cid m w = (r, w')"
    by (cases "plivo_frame E cid m w")
  from plivo_frame_cases [OF f] show ?thesis
  proof
    assume "r = Inr Break \<and> w' = close_openai (after_call_hangup E cid w)"
    then show ?thesis
      using ends_or_stays_after [of w w w' E cid] f Recv by simp
  next
    assume a: "r \<noteq> Inr Break \<and> call_data w' = call_data w \<and> trace w' = trace w"
    then have s: "stays cid w w'" by (simp add: stays_same)
    show ?thesis
    proof (cases r)
      case (Inl e)
      with plivo_except_step [of w' cid E e] a s f Recv show ?thesis
        by (auto intro: stays_ends stays_stays)
    next
      case (Inr l)
      with a have "l = Continue" by (cases l) simp_all
      with Inr f Recv s show ?thesis by simp
    qed
  qed
next
  case RecvClosed
  with plivo_except_step [of w cid E ConnectionClosed] show ?thesis by auto
next
  case (RecvFailed e)
  with plivo_except_step [of w cid E e] show ?thesis by auto
qed

text \<open>One step of a call keeps the record and the effects, or ends the call; a step
  that is a trigger ends a call that has a record.\<close>

lemma call_step_cases:
  "(call_data w cid \<noteq> None \<longrightarrow>
      ends cid w (call_step E cid w st) \<or> stays cid w (call_step E cid w st)) \<and>
   (call_data w cid = None \<longrightarrow> stays cid w (call_step E cid w st))"
proof (cases st)
  case (FromPlivo i)
  with receive_from_plivo_single [of w cid E i] show ?thesis by simp
next
  case (FromOpenAI m)
  with evolves_stays [OF evolves_receive [of cid w E cid m]] show ?thesis by simp
next
  case (Exit c)
  with handle_message_except_step [of w cid E c] show ?thesis by auto
qed

lemma call_step_trigger:
  assumes "is_trigger E st" and "call_data w cid \<noteq> None"
  shows "ends cid w (call_step E cid w st)"
proof (cases st)
  case (FromPlivo i)
  show ?thesis
  proof (cases i)
    case (Recv m)
    with assms FromPlivo have "is_hangup E m" by simp
    from plivo_frame_hangup [OF this, of cid w] assms(2) Recv FromPlivo
    show ?thesis
      using ends_or_stays_after [of w w "close_openai (after_call_hangup E cid w)" E cid]
      by simp
  next
    case RecvClosed
    with plivo_except_step [of w cid E ConnectionClosed] assms(2) FromPlivo show ?thesis by simp
  next
    case (RecvFailed e)
    with plivo_except_step [of w cid E e] assms(2) FromPlivo show ?thesis by simp
  qed
next
  case (FromOpenAI m)
  with assms show ?thesis by simp
next
  case (Exit c)
  with handle_message_except_step [of w cid E c] assms(2) show ?thesis by simp
qed

lemma run_Cons: "run E cid (st # steps) w = run E cid steps (call_step E cid w st)"
  by (simp add: run_def)

lemma run_absent:
  "call_data w cid = None \<Longrightarrow> stays cid w (run E cid steps w)"
proof (induction steps arbitrary: w)
  case Nil
  show ?case by (simp add: run_def stays_refl)
next
  case (Cons st steps)
  from call_step_cases [of w cid E st] Cons.prems
  have s: "stays cid w (call_step E cid w st)" by simp
  with Cons.prems have "call_data (call_step E cid w st) cid = None" by (simp add: stays_def)
  from Cons.IH [OF this] s show ?case by (simp add: run_Cons stays_stays)
qed

lemma run_present:
  "call_data w cid \<noteq> None \<Longrightarrow>
   ends cid w (run E cid steps w) \<or>
   (stays cid w (run E cid steps w) \<and> \<not> list_ex (is_trigger E) steps)"
proof (induction steps arbitrary: w)
  case Nil
  show ?case by (simp add: run_def stays_refl)
next
  case (Cons st steps)
  let ?w1 = "call_step E cid w st"
  from call_step_cases [of w cid E st] Cons.prems
  consider (e) "ends cid w ?w1" | (s) "stays cid w ?w1" "\<not> ends cid w ?w1" by blast
  then show ?case
  proof cases
    case e
    then have "call_data ?w1 cid = None" by (simp add: ends_def)
    from run_absent [OF this, of E steps] e show ?thesis
      by (simp add: run_Cons ends_stays)
  next
    case s
    with call_step_trigger [of E st w cid] Cons.prems have nt: "\<not> is_trigger E st" by blast
    from s Cons.prems have "call_data ?w1 cid \<noteq> None" by (simp add: stays_def)
    from Cons.IH [OF this] s(1) nt show ?thesis
      by (auto simp: run_Cons intro: stays_ends stays_stays)
  qed
qed

text \<open>
  C2. Take any sequence of steps of one call: inputs of the telephony pump, frames of
  the AI session and exceptions reaching \<open>handle_message\<close>, in any order and any
  number, so with any number of triggers (hangup frame, closed or failed telephony
  socket, exception in \<open>handle_message\<close>) one after another. Over the whole
  sequence at most one summarisation of the call, at most one delivery and at most one
  deletion of its record are made. If the call has a record and a trigger occurs, the
  record is gone at the end and was deleted exactly once; as long as the record is
  there, nothing of post-call processing has run; and a call without a record gets
  none back and sees no post-call processing at all.
\<close>

theorem post_call_processing_at_most_once:
  "length (filter (is_summary call_uuid) (trace (run E call_uuid steps w))) \<le>
     length (filter (is_summary call_uuid) (trace w)) + 1
   \<and> length (filter is_delivery (trace (run E call_uuid steps w))) \<le>
       length (filter is_delivery (trace w)) + 1
   \<and> count_list (trace (run E call_uuid steps w)) (Deleted call_uuid) \<le>
       count_list (trace w) (Deleted call_uuid) + 1
   \<and> (call_data w call_uuid \<noteq> None \<and> list_ex (is_trigger E) steps \<longrightarrow>
        call_data (run E call_uuid steps w) call_uuid = None \<and>
        count_list (trace (run E call_uuid steps w)) (Deleted call_uuid) =
          count_list (trace w) (Deleted call_uuid) + 1)
   \<and> (call_data (run E call_uuid steps w) call_uuid \<noteq> None \<or> call_data w call_uuid = None \<longrightarrow>
        (call_data (run E call_uuid steps w) call_uuid = None) = (call_data w call_uuid = None) \<and>
        length (filter (is_summary call_uuid) (trace (run E call_uuid steps w))) =
          length (filter (is_summary call_uuid) (trace w)) \<and>
        length (filter is_delivery (trace (run E call_uuid steps w))) =
          length (filter is_delivery (trace w)) \<and>
        count_list (trace (run E call_uuid steps w)) (Deleted call_uuid) =
          count_list (trace w) (Deleted call_uuid))"
proof (cases "call_data w call_uuid = None")
  case True
  from run_absent [OF this, of E steps] True show ?thesis
    by (simp add: stays_def)
next
  case False
  from run_present [OF this, of E steps] False show ?thesis
    by (auto simp: stays_def ends_def)
qed

theorem post_call_processing_at_most_once_witness:
  "list_ex (is_trigger test_env)
     [FromPlivo (Recv start_frame), FromPlivo (Recv hangup_frame), FromPlivo RecvClosed,
      Exit Cancelled]
   \<and> call_data (run test_env ''call-1''
        [FromPlivo (Recv start_frame), FromPlivo (Recv hangup_frame), FromPlivo RecvClosed,
         Exit Cancelled] (test_world talked_caller)) = Map.empty
   \<and> trace (run test_env ''call-1''
        [FromPlivo (Recv start_frame), FromPlivo (Recv hangup_frame), FromPlivo RecvClosed,
         Exit Cancelled] (test_world talked_caller)) =
       [Summarized ''call-1'' ''CALL TRANSCRIPT & CONVERSATION'',
        SentTemplate ''+15550100'' (JStr ''https://cleanuri.com/abc''),
        Deleted ''call-1'']
   \<and> count_list (trace (run test_env ''call-1''
        [FromPlivo (Recv start_frame), FromPlivo (Recv hangup_frame), FromPlivo RecvClosed,
         Exit Cancelled] (test_world talked_caller))) (Deleted ''call-1'') = 1"
proof -
  let ?steps = "[FromPlivo (Recv start_frame), FromPlivo (Recv hangup_frame),
                 FromPlivo RecvClosed, Exit Cancelled]"
  have h: "is_hangup test_env hangup_frame"
    by (simp add: is_hangup_def test_env_def test_frame_defs py_item_def)
  have s: "plivo_frame test_env ''call-1'' start_frame (test_world talked_caller) =
             (Inr Continue, test_world talked_caller)"
    by (simp add: plivo_frame_def test_env_def test_frame_defs test_world_def py_item_def)
  have a: "after_call_hangup test_env ''call-1'' (test_world talked_caller) =
     (test_world talked_caller)\<lparr>call_data := Map.empty, ticks := 1,
        trace := [Summarized ''call-1'' ''CALL TRANSCRIPT & CONVERSATION'',
                  SentTemplate ''+15550100'' (JStr ''https://cleanuri.com/abc''),
                  Deleted ''call-1'']\<rparr>"
    by (simp add: post_call_defs run test_world_def talked_caller_def new_caller_def
        new_session_def test_env_def)
  let ?w2 = "(test_world talked_caller)\<lparr>call_data := Map.empty, ticks := 1, openai_open := False,
        trace := [Summarized ''call-1'' ''CALL TRANSCRIPT & CONVERSATION'',
                  SentTemplate ''+15550100'' (JStr ''https://cleanuri.com/abc''),
                  Deleted ''call-1'']\<rparr>"
  have s1: "call_step test_env ''call-1'' (test_world talked_caller) (FromPlivo (Recv start_frame)) =
              test_world talked_caller"
    by (simp add: s)
  have s2: "call_step test_env ''call-1'' (test_world talked_caller) (FromPlivo (Recv hangup_frame)) =
              ?w2"
    by (simp add: plivo_frame_hangup [OF h] a close_openai_def)
  have s3: "call_step test_env ''call-1'' ?w2 (FromPlivo RecvClosed) = ?w2"
    by (simp add: plivo_except_def after_call_hangup_def close_openai_def)
  have s4: "call_step test_env ''call-1'' ?w2 (Exit Cancelled) = ?w2"
    by (simp add: handle_message_except_def after_call_hangup_def)
  have r: "run test_env ''call-1'' ?steps (test_world talked_caller) = ?w2"
    by (simp only: run_def foldl.simps s1 s2 s3 s4)
  have t: "list_ex (is_trigger test_env) ?steps"
    using h by simp
  have p: "call_data (test_world talked_caller) ''call-1'' \<noteq> None"
    by (simp add: test_world_def)
  from post_call_processing_at_most_once [of "''call-1''" test_env ?steps "test_world talked_caller"]
    t p r
  show ?thesis by (simp add: test_world_def)
qed

section \<open>Malformed frames\<close>




end
